theory Spec2Isabelle
  imports Complex_Main "HOL-Library.Word"
begin

unbundle bit_operations_syntax

section \<open>Build configuration, constants and machine integers\<close>

text \<open>
  The header \<^verbatim>\<open>common/JackNetTool.h\<close> is compiled in one of two ways, chosen by the
  preprocessor symbol \<^verbatim>\<open>__BIG_ENDIAN__\<close>. The build is a parameter of every operation whose
  text depends on it.
\<close>

datatype endianness = LittleEndian | BigEndian

text \<open>
  What can stop an operation before it returns: an access outside a buffer or through a
  pointer that is no buffer (\<^verbatim>\<open>NULL\<close>, or the marker \<^verbatim>\<open>(sample_t*)-1\<close>), an integer division by
  zero or a conversion of a non-finite float to \<^verbatim>\<open>int\<close>, a failed \<^verbatim>\<open>assert\<close>, and an array
  allocation of negative length. C leaves the first two undefined; the model stops there.
\<close>

datatype fault = MemoryFault | ArithmeticFault | AssertFailed | AllocFault

definition NET_PACKET_ERROR :: int where
  "NET_PACKET_ERROR = - 2"

text \<open>
  \<^verbatim>\<open>sizeof(packet_header_t)\<close>: nine chars, three bytes of padding, seven \<^verbatim>\<open>uint32_t\<close>.
  \<^verbatim>\<open>sizeof(sample_t)\<close> is the size of a \<^verbatim>\<open>float\<close>, which is also \<^verbatim>\<open>sizeof(uint32_t)\<close>.
\<close>

definition HEADER_SIZE :: nat where
  "HEADER_SIZE = 40"

definition SAMPLE_SIZE :: nat where
  "SAMPLE_SIZE = 4"

text \<open>Conversions to the fixed-width integer types, with the wrap-around written out.\<close>

definition to_int32 :: "int \<Rightarrow> int" where
  "to_int32 x = (x + 2 ^ 31) mod 2 ^ 32 - 2 ^ 31"

definition to_uint32 :: "int \<Rightarrow> nat" where
  "to_uint32 x = nat (x mod 2 ^ 32)"

definition to_size_t :: "int \<Rightarrow> nat" where
  "to_size_t x = nat (x mod 2 ^ 64)"

definition to_int16 :: "int \<Rightarrow> int" where
  "to_int16 x = (x + 2 ^ 15) mod 2 ^ 16 - 2 ^ 15"

text \<open>
  The only \<^verbatim>\<open>float\<close> the structure keeps is a quotient \<^verbatim>\<open>float(a) / float(b)\<close> of two
  unsigned integers. It is kept as the two operands, which determine it; the rounded
  value is not computed.
\<close>

datatype cfloat = FloatDiv nat nat

type_synonym byte = "8 word"

text \<open>The four bytes of a \<^verbatim>\<open>uint32_t\<close> in the memory of a little-endian host, and back.\<close>

definition uint32_bytes :: "32 word \<Rightarrow> byte list" where
  "uint32_bytes w = [ucast w, ucast (drop_bit 8 w), ucast (drop_bit 16 w), ucast (drop_bit 24 w)]"

fun bytes_uint32 :: "byte list \<Rightarrow> 32 word" where
  "bytes_uint32 [] = 0"
| "bytes_uint32 (b # bs) = ucast b OR push_bit 8 (bytes_uint32 bs)"

section \<open>Session parameters and packet header\<close>

record session_params =
  fPacketType :: string
  fProtocolVersion :: byte
  fPacketID :: "32 word"
  fName :: string
  fMasterNetName :: string
  fSlaveNetName :: string
  fMtu :: "32 word"
  fID :: "32 word"
  fTransportSync :: "32 word"
  fSendAudioChannels :: "32 word"
  fReturnAudioChannels :: "32 word"
  fSendMidiChannels :: "32 word"
  fReturnMidiChannels :: "32 word"
  fSampleRate :: "32 word"
  fPeriodSize :: "32 word"
  fSampleEncoder :: "32 word"
  fKBps :: "32 word"
  fSlaveSyncMode :: "32 word"
  fNetworkLatency :: "32 word"

record packet_header =
  fPacketType :: string
  fDataType :: byte
  fDataStream :: byte
  fID :: "32 word"
  fNumPacket :: "32 word"
  fPacketSize :: "32 word"
  fActivePorts :: "32 word"
  fCycle :: "32 word"
  fSubCycle :: "32 word"
  fIsLastPckt :: "32 word"

section \<open>The audio frame layout\<close>

text \<open>
  The sizing expression
  \<^verbatim>\<open>(int) powf(2.f, (int)(log(float(fPacketSize) / (n * sizeof(sample_t))) / log(2.)))\<close>
  is computed in floating point by the C library, which is not part of this code. Its inner
  part, \<^verbatim>\<open>(int)(log(float(a) / b) / log(2.))\<close> for a positive packet size \<open>a\<close> and a positive
  divisor \<open>b\<close>, is a parameter \<open>lg\<close> of every operation that sizes packets.

  What is asked of it is stated with exact arithmetic. \<open>floor_log2 n\<close> is the integer part of
  the binary logarithm of \<open>n \<ge> 1\<close>, and \<open>log2_trunc a b\<close> is the binary logarithm of the
  quotient \<open>a / b\<close> truncated towards zero, as the cast to \<^verbatim>\<open>int\<close> does (lemma
  \<open>log2_trunc_real\<close>). The rounded computation need not agree with it: where the quotient is
  at or just beside a power of two it gives the exponent on either side.
  \<open>float_log2_accurate lg\<close> says that \<open>lg a b\<close> lies between the exact results for the
  quotient made smaller and larger by one part in 1024, which is far more than the rounding
  of single precision.

  \<open>powf2_int e\<close> is \<open>2\<^sup>e\<close> cast to \<^verbatim>\<open>int\<close>: exact for an exponent from 0 to 30, and 0 for a
  negative one.
\<close>

fun floor_log2 :: "nat \<Rightarrow> nat" where
  "floor_log2 n = (if n < 2 then 0 else Suc (floor_log2 (n div 2)))"

declare floor_log2.simps [simp del]

definition log2_trunc :: "nat \<Rightarrow> nat \<Rightarrow> int" where
  "log2_trunc a b =
     (if b \<le> a then int (floor_log2 (a div b)) else - int (floor_log2 (b div a)))"

type_synonym float_log2 = "nat \<Rightarrow> nat \<Rightarrow> int"

definition float_log2_accurate :: "float_log2 \<Rightarrow> bool" where
  "float_log2_accurate lg \<longleftrightarrow>
     (\<forall>a b. 0 < a \<and> 0 < b \<longrightarrow>
        log2_trunc (1023 * a) (1024 * b) \<le> lg a b \<and> lg a b \<le> log2_trunc (1025 * a) (1024 * b))"

definition powf2_int :: "int \<Rightarrow> nat" where
  "powf2_int e = (if 0 \<le> e then 2 ^ nat e else 0)"

text \<open>
  The two statements every sizing site shares: \<^verbatim>\<open>period\<close> from the packet size and the
  divisor \<^verbatim>\<open>n * sizeof(sample_t)\<close>, then the clamp to the period size. The logarithm of a
  quotient that is not positive and finite has no \<^verbatim>\<open>int\<close> value, and neither has a power
  of two from \<open>2\<^sup>3\<^sup>1\<close> on.
\<close>

definition sub_period :: "float_log2 \<Rightarrow> int \<Rightarrow> nat \<Rightarrow> nat \<Rightarrow> fault + nat" where
  "sub_period lg packet_size divisor period_size =
     (if packet_size \<le> 0 \<or> divisor = 0 then Inl ArithmeticFault
      else let e = lg (nat packet_size) divisor
           in if 31 \<le> e then Inl ArithmeticFault
              else let period = powf2_int e
                   in Inr (if period > period_size then period_size else period))"

text \<open>
  An entry of the array \<^verbatim>\<open>fPortBuffer\<close>: \<^verbatim>\<open>NULL\<close>, the marker \<^verbatim>\<open>(sample_t*)-1\<close> that
  \<^verbatim>\<open>ActivePortsFromNetwork\<close> stores for a port connected on the other side, or a host buffer,
  given by its bytes.
\<close>

datatype port_ptr = NullPtr | ConnectedMark | Buffer "byte list"

text \<open>
  The base class \<^verbatim>\<open>NetAudioBuffer\<close> as far as \<^verbatim>\<open>NetFloatAudioBuffer1\<close> uses it in this header.
\<close>

record NetAudioBuffer =
  fLastSubCycle :: int

text \<open>
  \<^verbatim>\<open>struct JackPortList\<close>. The array \<^verbatim>\<open>fPortBuffer\<close> and its length \<^verbatim>\<open>fNPorts\<close> are one list.
\<close>

record JackPortList =
  fPeriodSize :: nat
  fSubPeriodSize :: nat
  fSubPeriodBytesSize :: nat
  fPortBuffer :: "port_ptr list"
  fPacketSize :: int
  fCycleSize :: nat
  fCycleDuration :: cfloat
  fLastSubCycle :: int

definition fNPorts :: "JackPortList \<Rightarrow> nat" where
  "fNPorts pl = length (fPortBuffer pl)"

text \<open>\<^verbatim>\<open>JackPortList(session_params_t* params, uint32_t nports)\<close>\<close>

definition JackPortList_ctor ::
  "float_log2 \<Rightarrow> session_params \<Rightarrow> nat \<Rightarrow> fault + JackPortList" where
  "JackPortList_ctor lg params nports =
     (let period_size = unat (session_params.fPeriodSize params);
          packet_size = to_int32 (int (unat (fMtu params)) - int HEADER_SIZE);
          send = sint (fSendAudioChannels params);
          ret = sint (fReturnAudioChannels params);
          sub = (if send = 0 \<and> ret = 0 then Inr period_size
                 else sub_period lg packet_size
                        ((to_size_t (max ret send) * SAMPLE_SIZE) mod 2 ^ 64) period_size)
      in case sub of
           Inl f \<Rightarrow> Inl f
         | Inr s \<Rightarrow>
             if 2 ^ 31 \<le> nports then Inl AllocFault
             else if s = 0 then Inl ArithmeticFault
             else Inr \<lparr> fPeriodSize = period_size,
                        fSubPeriodSize = s,
                        fSubPeriodBytesSize = s * SAMPLE_SIZE,
                        fPortBuffer = replicate nports NullPtr,
                        fPacketSize = packet_size,
                        fCycleSize = (unat (fMtu params) * (period_size div s)) mod 2 ^ 32,
                        fCycleDuration = FloatDiv s (unat (fSampleRate params)),
                        fLastSubCycle = - 1 \<rparr>)"

text \<open>\<^verbatim>\<open>JackPortList::GetNumPackets\<close>, \<^verbatim>\<open>GetCycleSize\<close>, \<^verbatim>\<open>GetCycleDuration\<close>, \<^verbatim>\<open>SetBuffer\<close>\<close>

definition JackPortList_GetNumPackets :: "JackPortList \<Rightarrow> fault + int" where
  "JackPortList_GetNumPackets pl =
     (if fSubPeriodSize pl = 0 then Inl ArithmeticFault
      else Inr (to_int32 (int (fPeriodSize pl div fSubPeriodSize pl))))"

definition GetCycleSize :: "JackPortList \<Rightarrow> nat" where
  "GetCycleSize pl = fCycleSize pl"

definition GetCycleDuration :: "JackPortList \<Rightarrow> cfloat" where
  "GetCycleDuration pl = fCycleDuration pl"

definition SetBuffer :: "JackPortList \<Rightarrow> nat \<Rightarrow> port_ptr \<Rightarrow> fault + JackPortList" where
  "SetBuffer pl index buffer =
     (if index < fNPorts pl then Inr (pl\<lparr>fPortBuffer := (fPortBuffer pl)[index := buffer]\<rparr>)
      else Inl MemoryFault)"

text \<open>\<^verbatim>\<open>JackOptimizedPortList::GetNumPackets\<close>; the constructor is the one of the base class.\<close>

definition active_ports_count :: "port_ptr list \<Rightarrow> nat" where
  "active_ports_count ports = length (filter (\<lambda>p. p \<noteq> NullPtr) ports)"

definition JackOptimizedPortList_GetNumPackets ::
  "float_log2 \<Rightarrow> JackPortList \<Rightarrow> fault + (int \<times> JackPortList)" where
  "JackOptimizedPortList_GetNumPackets lg pl =
     (let active_ports = active_ports_count (fPortBuffer pl);
          sub = (if active_ports = 0 then Inr (fPeriodSize pl)
                 else sub_period lg (fPacketSize pl) (active_ports * SAMPLE_SIZE) (fPeriodSize pl))
      in case sub of
           Inl f \<Rightarrow> Inl f
         | Inr s \<Rightarrow>
             if s = 0 then Inl ArithmeticFault
             else Inr (to_int32 (int (fPeriodSize pl div s)),
                       pl\<lparr>fSubPeriodSize := s, fSubPeriodBytesSize := s * SAMPLE_SIZE + 4\<rparr>))"

section \<open>Buffers\<close>

text \<open>
  A buffer is the list of its bytes, and its length is its extent. \<^verbatim>\<open>memcpy\<close> is a read of
  \<open>n\<close> bytes followed by a write; either stops with a fault outside the buffer.
\<close>

definition mem_read :: "byte list \<Rightarrow> nat \<Rightarrow> nat \<Rightarrow> fault + byte list" where
  "mem_read buf off n =
     (if off + n \<le> length buf then Inr (take n (drop off buf)) else Inl MemoryFault)"

definition mem_write :: "byte list \<Rightarrow> nat \<Rightarrow> byte list \<Rightarrow> fault + byte list" where
  "mem_write buf off bs =
     (if off + length bs \<le> length buf
      then Inr (take off buf @ bs @ drop (off + length bs) buf)
      else Inl MemoryFault)"

fun port_read :: "port_ptr \<Rightarrow> nat \<Rightarrow> nat \<Rightarrow> fault + byte list" where
  "port_read (Buffer b) off n = mem_read b off n"
| "port_read _ off n = Inl MemoryFault"

fun port_write :: "port_ptr \<Rightarrow> nat \<Rightarrow> byte list \<Rightarrow> fault + port_ptr" where
  "port_write (Buffer b) off bs =
     (case mem_write b off bs of Inl f \<Rightarrow> Inl f | Inr b' \<Rightarrow> Inr (Buffer b'))"
| "port_write _ off bs = Inl MemoryFault"

text \<open>
  \<^verbatim>\<open>SwapFloat\<close> reverses the four bytes of a sample; \<open>swap_floats\<close> applies it to each
  sample of a run of whole samples, as the loops of the big-endian build do.
\<close>

definition SwapFloat :: "byte list \<Rightarrow> byte list" where
  "SwapFloat f = rev f"

fun swap_floats :: "byte list \<Rightarrow> byte list" where
  "swap_floats (b0 # b1 # b2 # b3 # bs) = SwapFloat [b0, b1, b2, b3] @ swap_floats bs"
| "swap_floats bs = bs"

section \<open>Rendering, fixed layout\<close>

text \<open>
  One iteration of the copy loop of \<^verbatim>\<open>JackPortList::RenderFromNetwork\<close>: \<^verbatim>\<open>memcpy\<close> in the
  little-endian build; in the big-endian build a loop over
  \<^verbatim>\<open>fSubPeriodBytesSize / sizeof(float)\<close> samples, which touches no memory when that is 0.
  Offsets and sizes are in bytes.
\<close>

definition port_from_net ::
  "endianness \<Rightarrow> port_ptr \<Rightarrow> nat \<Rightarrow> byte list \<Rightarrow> nat \<Rightarrow> nat \<Rightarrow> fault + port_ptr" where
  "port_from_net e p dst_off net src_off n =
     (case e of
        LittleEndian \<Rightarrow>
          (case mem_read net src_off n of
             Inl f \<Rightarrow> Inl f
           | Inr bs \<Rightarrow> port_write p dst_off bs)
      | BigEndian \<Rightarrow>
          (if n div 4 = 0 then Inr p
           else case mem_read net src_off (4 * (n div 4)) of
                  Inl f \<Rightarrow> Inl f
                | Inr bs \<Rightarrow> port_write p dst_off (swap_floats bs)))"

definition net_from_port ::
  "endianness \<Rightarrow> byte list \<Rightarrow> nat \<Rightarrow> port_ptr \<Rightarrow> nat \<Rightarrow> nat \<Rightarrow> fault + byte list" where
  "net_from_port e net dst_off p src_off n =
     (case e of
        LittleEndian \<Rightarrow>
          (case port_read p src_off n of
             Inl f \<Rightarrow> Inl f
           | Inr bs \<Rightarrow> mem_write net dst_off bs)
      | BigEndian \<Rightarrow>
          (if n div 4 = 0 then Inr net
           else case port_read p src_off (4 * (n div 4)) of
                  Inl f \<Rightarrow> Inl f
                | Inr bs \<Rightarrow> mem_write net dst_off (swap_floats bs)))"

text \<open>
  The loop \<^verbatim>\<open>for (port_index = 0; port_index < fNPorts; port_index++)\<close> of
  \<^verbatim>\<open>RenderFromNetwork\<close>, over the list of the indices still to visit.
\<close>

fun from_network_loop ::
  "endianness \<Rightarrow> nat list \<Rightarrow> port_ptr list \<Rightarrow> byte list \<Rightarrow> nat \<Rightarrow> nat \<Rightarrow> fault + port_ptr list" where
  "from_network_loop e [] ports net dst_off n = Inr ports"
| "from_network_loop e (port_index # rest) ports net dst_off n =
     (case port_from_net e (ports ! port_index) dst_off net (port_index * n) n of
        Inl f \<Rightarrow> Inl f
      | Inr p \<Rightarrow> from_network_loop e rest (ports[port_index := p]) net dst_off n)"

text \<open>
  \<^verbatim>\<open>JackPortList::RenderFromNetwork(net_buffer, cycle, sub_cycle, copy_size, port_num)\<close>.
  The product \<^verbatim>\<open>sub_cycle * fSubPeriodSize\<close> is unsigned 32-bit and counts samples. The call
  to \<^verbatim>\<open>jack_error\<close> writes a log line and is not part of the state.
\<close>

definition JackPortList_RenderFromNetwork ::
  "endianness \<Rightarrow> JackPortList \<Rightarrow> byte list \<Rightarrow> int \<Rightarrow> int \<Rightarrow> nat \<Rightarrow> nat
     \<Rightarrow> fault + (int \<times> JackPortList)" where
  "JackPortList_RenderFromNetwork e pl net_buffer cycle sub_cycle copy_size port_num =
     (case from_network_loop e [0..<fNPorts pl] (fPortBuffer pl) net_buffer
             (SAMPLE_SIZE * to_uint32 (sub_cycle * int (fSubPeriodSize pl)))
             (fSubPeriodBytesSize pl) of
        Inl f \<Rightarrow> Inl f
      | Inr ports \<Rightarrow>
          Inr (if sub_cycle \<noteq> fLastSubCycle pl + 1 then NET_PACKET_ERROR else 0,
               pl\<lparr>fPortBuffer := ports, fLastSubCycle := sub_cycle\<rparr>))"

fun to_network_loop ::
  "endianness \<Rightarrow> nat list \<Rightarrow> port_ptr list \<Rightarrow> byte list \<Rightarrow> nat \<Rightarrow> nat \<Rightarrow> fault + byte list" where
  "to_network_loop e [] ports net src_off n = Inr net"
| "to_network_loop e (port_index # rest) ports net src_off n =
     (case net_from_port e net (port_index * n) (ports ! port_index) src_off n of
        Inl f \<Rightarrow> Inl f
      | Inr net' \<Rightarrow> to_network_loop e rest ports net' src_off n)"

text \<open>
  \<^verbatim>\<open>JackPortList::RenderToNetwork(net_buffer, sub_cycle, port_num)\<close>: the result is the
  returned byte count, the value left in \<^verbatim>\<open>port_num\<close>, and the network buffer.
\<close>

definition JackPortList_RenderToNetwork ::
  "endianness \<Rightarrow> JackPortList \<Rightarrow> byte list \<Rightarrow> int \<Rightarrow> fault + (int \<times> nat \<times> byte list)" where
  "JackPortList_RenderToNetwork e pl net_buffer sub_cycle =
     (case to_network_loop e [0..<fNPorts pl] (fPortBuffer pl) net_buffer
             (SAMPLE_SIZE * to_uint32 (sub_cycle * int (fSubPeriodSize pl)))
             (fSubPeriodBytesSize pl) of
        Inl f \<Rightarrow> Inl f
      | Inr net \<Rightarrow>
          Inr (to_int32 (int (fNPorts pl * fSubPeriodBytesSize pl)), fNPorts pl, net))"

text \<open>
  \<^verbatim>\<open>JackPortList::RenderToJackPorts\<close>: resets the counter in the little-endian build and has
  an empty body in the big-endian build. \<^verbatim>\<open>NetFloatAudioBuffer1::RenderToJackPorts\<close> is not
  under the preprocessor switch.
\<close>

definition JackPortList_RenderToJackPorts :: "endianness \<Rightarrow> JackPortList \<Rightarrow> JackPortList" where
  "JackPortList_RenderToJackPorts e pl =
     (case e of LittleEndian \<Rightarrow> pl\<lparr>fLastSubCycle := - 1\<rparr> | BigEndian \<Rightarrow> pl)"

definition NetFloatAudioBuffer1_RenderToJackPorts :: "NetAudioBuffer \<Rightarrow> NetAudioBuffer" where
  "NetFloatAudioBuffer1_RenderToJackPorts b = b\<lparr>NetAudioBuffer.fLastSubCycle := - 1\<rparr>"

section \<open>Rendering, optimized layout\<close>

text \<open>
  The loop at the head of \<^verbatim>\<open>JackOptimizedPortList::RenderFromNetwork\<close> that clears every
  port with a non-null pointer: \<^verbatim>\<open>memset(fPortBuffer[port_index], 0, n)\<close>.
\<close>

fun cleanup_loop :: "nat list \<Rightarrow> port_ptr list \<Rightarrow> nat \<Rightarrow> fault + port_ptr list" where
  "cleanup_loop [] ports n = Inr ports"
| "cleanup_loop (port_index # rest) ports n =
     (if ports ! port_index \<noteq> NullPtr
      then case port_write (ports ! port_index) 0 (replicate n 0) of
             Inl f \<Rightarrow> Inl f
           | Inr p \<Rightarrow> cleanup_loop rest (ports[port_index := p]) n
      else cleanup_loop rest ports n)"

text \<open>
  The loop \<^verbatim>\<open>for (uint32_t port_index = 0; port_index < port_num; port_index++)\<close>: the port
  number is read from the packet, the test is on \<^verbatim>\<open>fPortBuffer[port_index]\<close>, and the copy
  goes to \<^verbatim>\<open>fPortBuffer[active_port]\<close>. The offset into the packet is an unsigned 32-bit
  product; the offset into the port buffer is a signed product of samples.
\<close>

fun opt_from_network_loop ::
  "nat list \<Rightarrow> port_ptr list \<Rightarrow> byte list \<Rightarrow> int \<Rightarrow> int \<Rightarrow> int \<Rightarrow> fault + port_ptr list" where
  "opt_from_network_loop [] ports net sub_cycle sub_period_size sub_period_bytes_size = Inr ports"
| "opt_from_network_loop (port_index # rest) ports net sub_cycle sub_period_size
       sub_period_bytes_size =
     (case mem_read net (to_uint32 (int port_index * sub_period_bytes_size)) 4 of
        Inl f \<Rightarrow> Inl f
      | Inr a \<Rightarrow>
          let active_port = unat (bytes_uint32 a) in
          if length ports \<le> port_index then Inl MemoryFault
          else if ports ! port_index \<noteq> NullPtr then
            (if length ports \<le> active_port \<or> sub_cycle * sub_period_size < 0
             then Inl MemoryFault
             else case mem_read net (to_uint32 (int port_index * sub_period_bytes_size) + 4)
                         (to_size_t (sub_period_bytes_size - 4)) of
                    Inl f \<Rightarrow> Inl f
                  | Inr bs \<Rightarrow>
                      (case port_write (ports ! active_port)
                              (SAMPLE_SIZE * nat (sub_cycle * sub_period_size)) bs of
                         Inl f \<Rightarrow> Inl f
                       | Inr p \<Rightarrow>
                           opt_from_network_loop rest (ports[active_port := p]) net sub_cycle
                             sub_period_size sub_period_bytes_size))
          else opt_from_network_loop rest ports net sub_cycle sub_period_size
                 sub_period_bytes_size)"

text \<open>
  \<^verbatim>\<open>JackOptimizedPortList::RenderFromNetwork\<close>. In the big-endian build the class overrides
  nothing and the call is the one of \<^verbatim>\<open>JackPortList\<close>.
\<close>

definition JackOptimizedPortList_RenderFromNetwork ::
  "endianness \<Rightarrow> float_log2 \<Rightarrow> JackPortList \<Rightarrow> byte list \<Rightarrow> int \<Rightarrow> int \<Rightarrow> nat \<Rightarrow> nat
     \<Rightarrow> fault + (int \<times> JackPortList)" where
  "JackOptimizedPortList_RenderFromNetwork e lg pl net_buffer cycle sub_cycle copy_size port_num =
     (case e of
        BigEndian \<Rightarrow> JackPortList_RenderFromNetwork BigEndian pl net_buffer cycle sub_cycle
                       copy_size port_num
      | LittleEndian \<Rightarrow>
          (case (if sub_cycle = 0
                 then cleanup_loop [0..<fNPorts pl] (fPortBuffer pl) (fPeriodSize pl * SAMPLE_SIZE)
                 else Inr (fPortBuffer pl)) of
             Inl f \<Rightarrow> Inl f
           | Inr cleaned \<Rightarrow>
               if port_num > 0 then
                 (case (if port_num = 0 then Inr (fPeriodSize pl)
                        else sub_period lg (fPacketSize pl) (port_num * SAMPLE_SIZE)
                               (fPeriodSize pl)) of
                    Inl f \<Rightarrow> Inl f
                  | Inr s \<Rightarrow>
                      let sub_period_size = to_int32 (int s);
                          sub_period_bytes_size = to_int32 (sub_period_size * 4 + 4)
                      in (case opt_from_network_loop [0..<port_num] cleaned net_buffer sub_cycle
                                 sub_period_size sub_period_bytes_size of
                            Inl f \<Rightarrow> Inl f
                          | Inr ports \<Rightarrow>
                              Inr (if sub_cycle \<noteq> fLastSubCycle pl + 1 then NET_PACKET_ERROR else 0,
                                   pl\<lparr>fPortBuffer := ports, fLastSubCycle := sub_cycle\<rparr>)))
               else Inr (0, pl\<lparr>fPortBuffer := cleaned\<rparr>)))"

text \<open>
  The loop of \<^verbatim>\<open>JackOptimizedPortList::RenderToNetwork\<close>: for every port with a non-null
  pointer, the port number and then \<^verbatim>\<open>fSubPeriodBytesSize - sizeof(uint32_t)\<close> bytes of
  samples (a \<^verbatim>\<open>size_t\<close> difference) go to slot \<^verbatim>\<open>port_num\<close> of the packet.
\<close>

fun opt_to_network_loop ::
  "nat list \<Rightarrow> port_ptr list \<Rightarrow> byte list \<Rightarrow> nat \<Rightarrow> nat \<Rightarrow> nat \<Rightarrow> fault + (byte list \<times> nat)" where
  "opt_to_network_loop [] ports net port_num src_off n = Inr (net, port_num)"
| "opt_to_network_loop (port_index # rest) ports net port_num src_off n =
     (if ports ! port_index \<noteq> NullPtr
      then case mem_write net (port_num * n) (uint32_bytes (of_nat port_index)) of
             Inl f \<Rightarrow> Inl f
           | Inr net1 \<Rightarrow>
               (case port_read (ports ! port_index) src_off (to_size_t (int n - 4)) of
                  Inl f \<Rightarrow> Inl f
                | Inr bs \<Rightarrow>
                    (case mem_write net1 (port_num * n + 4) bs of
                       Inl f \<Rightarrow> Inl f
                     | Inr net2 \<Rightarrow>
                         opt_to_network_loop rest ports net2 (port_num + 1) src_off n))
      else opt_to_network_loop rest ports net port_num src_off n)"

definition JackOptimizedPortList_RenderToNetwork ::
  "endianness \<Rightarrow> JackPortList \<Rightarrow> byte list \<Rightarrow> int \<Rightarrow> fault + (int \<times> nat \<times> byte list)" where
  "JackOptimizedPortList_RenderToNetwork e pl net_buffer sub_cycle =
     (case e of
        BigEndian \<Rightarrow> JackPortList_RenderToNetwork BigEndian pl net_buffer sub_cycle
      | LittleEndian \<Rightarrow>
          (case opt_to_network_loop [0..<fNPorts pl] (fPortBuffer pl) net_buffer 0
                  (SAMPLE_SIZE * to_uint32 (sub_cycle * int (fSubPeriodSize pl)))
                  (fSubPeriodBytesSize pl) of
             Inl f \<Rightarrow> Inl f
           | Inr (net, port_num) \<Rightarrow>
               Inr (to_int32 (int (port_num * fSubPeriodBytesSize pl)), port_num, net)))"

section \<open>The list of active ports\<close>

text \<open>
  Both operations view the buffer as the array of \<^verbatim>\<open>short\<close> they cast it to; an element is
  the value of one \<^verbatim>\<open>short\<close>. In \<^verbatim>\<open>ActivePortsToNetwork\<close> the write pointer and \<^verbatim>\<open>port_num\<close>
  advance together, so the pointer is the buffer at index \<^verbatim>\<open>port_num\<close>; the stored value is
  the port index converted to \<^verbatim>\<open>short\<close>, and the \<^verbatim>\<open>assert\<close> follows the increment.
\<close>

fun active_to_network_loop ::
  "nat list \<Rightarrow> port_ptr list \<Rightarrow> int list \<Rightarrow> nat \<Rightarrow> fault + (int list \<times> nat)" where
  "active_to_network_loop [] ports net port_num = Inr (net, port_num)"
| "active_to_network_loop (port_index # rest) ports net port_num =
     (if ports ! port_index \<noteq> NullPtr
      then if port_num < length net
           then if port_num + 1 < 512
                then active_to_network_loop rest ports
                       (net[port_num := to_int16 (int port_index)]) (port_num + 1)
                else Inl AssertFailed
           else Inl MemoryFault
      else active_to_network_loop rest ports net port_num)"

definition JackOptimizedPortList_ActivePortsToNetwork ::
  "JackPortList \<Rightarrow> int list \<Rightarrow> fault + (int list \<times> nat)" where
  "JackOptimizedPortList_ActivePortsToNetwork pl net_buffer =
     active_to_network_loop [0..<fNPorts pl] (fPortBuffer pl) net_buffer 0"

text \<open>
  \<^verbatim>\<open>ActivePortsFromNetwork\<close>: all pointers are set to \<^verbatim>\<open>NULL\<close>, then \<^verbatim>\<open>port_num\<close> entries are
  read. The values passed to \<^verbatim>\<open>jack_error\<close> are collected in a log, in order.
\<close>

fun active_from_network_loop ::
  "nat list \<Rightarrow> int list \<Rightarrow> port_ptr list \<Rightarrow> int list \<Rightarrow> fault + (port_ptr list \<times> int list)" where
  "active_from_network_loop [] net ports errs = Inr (ports, errs)"
| "active_from_network_loop (k # rest) net ports errs =
     (if k < length net
      then let active_port = net ! k in
           if 0 \<le> active_port \<and> active_port < int (length ports)
           then active_from_network_loop rest net (ports[nat active_port := ConnectedMark]) errs
           else active_from_network_loop rest net ports (errs @ [active_port])
      else Inl MemoryFault)"

definition JackOptimizedPortList_ActivePortsFromNetwork ::
  "JackPortList \<Rightarrow> int list \<Rightarrow> nat \<Rightarrow> fault + (JackPortList \<times> int list)" where
  "JackOptimizedPortList_ActivePortsFromNetwork pl net_buffer port_num =
     (case active_from_network_loop [0..<port_num] net_buffer
             (replicate (fNPorts pl) NullPtr) [] of
        Inl f \<Rightarrow> Inl f
      | Inr (ports, errs) \<Rightarrow> Inr (pl\<lparr>fPortBuffer := ports\<rparr>, errs))"

section \<open>Byte order of the session parameters and of the packet header\<close>

text \<open>
  \<^verbatim>\<open>htonl\<close> and \<^verbatim>\<open>ntohl\<close> of the C library: the identity on a big-endian host, the reversal
  of the four bytes on a little-endian one.
\<close>

definition bswap32 :: "32 word \<Rightarrow> 32 word" where
  "bswap32 w = bytes_uint32 (rev (uint32_bytes w))"

definition htonl :: "endianness \<Rightarrow> 32 word \<Rightarrow> 32 word" where
  "htonl e w = (case e of BigEndian \<Rightarrow> w | LittleEndian \<Rightarrow> bswap32 w)"

definition ntohl :: "endianness \<Rightarrow> 32 word \<Rightarrow> 32 word" where
  "ntohl e w = (case e of BigEndian \<Rightarrow> w | LittleEndian \<Rightarrow> bswap32 w)"

text \<open>
  Modelled from the spec: the header only declares \<^verbatim>\<open>SessionParamsHToN\<close>,
  \<^verbatim>\<open>SessionParamsNToH\<close>, \<^verbatim>\<open>PacketHeaderHToN\<close> and \<^verbatim>\<open>PacketHeaderNToH\<close>; their bodies are
  not in this file. Following section 4.1 and section 6 of the specification, every
  multi-byte integer field is converted between host and network byte order, and the
  character fields (the fixed-width strings and the single-byte tags) are copied as
  they are. The destination structure is the result.
\<close>

definition SessionParamsHToN :: "endianness \<Rightarrow> session_params \<Rightarrow> session_params" where
  "SessionParamsHToN e src =
     src\<lparr> fPacketID := htonl e (fPacketID src),
          fMtu := htonl e (fMtu src),
          session_params.fID := htonl e (session_params.fID src),
          fTransportSync := htonl e (fTransportSync src),
          fSendAudioChannels := htonl e (fSendAudioChannels src),
          fReturnAudioChannels := htonl e (fReturnAudioChannels src),
          fSendMidiChannels := htonl e (fSendMidiChannels src),
          fReturnMidiChannels := htonl e (fReturnMidiChannels src),
          fSampleRate := htonl e (fSampleRate src),
          session_params.fPeriodSize := htonl e (session_params.fPeriodSize src),
          fSampleEncoder := htonl e (fSampleEncoder src),
          fKBps := htonl e (fKBps src),
          fSlaveSyncMode := htonl e (fSlaveSyncMode src),
          fNetworkLatency := htonl e (fNetworkLatency src) \<rparr>"

definition SessionParamsNToH :: "endianness \<Rightarrow> session_params \<Rightarrow> session_params" where
  "SessionParamsNToH e src =
     src\<lparr> fPacketID := ntohl e (fPacketID src),
          fMtu := ntohl e (fMtu src),
          session_params.fID := ntohl e (session_params.fID src),
          fTransportSync := ntohl e (fTransportSync src),
          fSendAudioChannels := ntohl e (fSendAudioChannels src),
          fReturnAudioChannels := ntohl e (fReturnAudioChannels src),
          fSendMidiChannels := ntohl e (fSendMidiChannels src),
          fReturnMidiChannels := ntohl e (fReturnMidiChannels src),
          fSampleRate := ntohl e (fSampleRate src),
          session_params.fPeriodSize := ntohl e (session_params.fPeriodSize src),
          fSampleEncoder := ntohl e (fSampleEncoder src),
          fKBps := ntohl e (fKBps src),
          fSlaveSyncMode := ntohl e (fSlaveSyncMode src),
          fNetworkLatency := ntohl e (fNetworkLatency src) \<rparr>"

definition PacketHeaderHToN :: "endianness \<Rightarrow> packet_header \<Rightarrow> packet_header" where
  "PacketHeaderHToN e src =
     src\<lparr> packet_header.fID := htonl e (packet_header.fID src),
          fNumPacket := htonl e (fNumPacket src),
          packet_header.fPacketSize := htonl e (packet_header.fPacketSize src),
          fActivePorts := htonl e (fActivePorts src),
          fCycle := htonl e (fCycle src),
          fSubCycle := htonl e (fSubCycle src),
          fIsLastPckt := htonl e (fIsLastPckt src) \<rparr>"

definition PacketHeaderNToH :: "endianness \<Rightarrow> packet_header \<Rightarrow> packet_header" where
  "PacketHeaderNToH e src =
     src\<lparr> packet_header.fID := ntohl e (packet_header.fID src),
          fNumPacket := ntohl e (fNumPacket src),
          packet_header.fPacketSize := ntohl e (packet_header.fPacketSize src),
          fActivePorts := ntohl e (fActivePorts src),
          fCycle := ntohl e (fCycle src),
          fSubCycle := ntohl e (fSubCycle src),
          fIsLastPckt := ntohl e (fIsLastPckt src) \<rparr>"

section \<open>Concrete inputs\<close>

text \<open>
  Session parameters with a given MTU, channel counts and period size, at 48 kHz, and the
  port list the constructor builds from them.
\<close>

definition example_params :: "nat \<Rightarrow> int \<Rightarrow> int \<Rightarrow> nat \<Rightarrow> session_params" where
  "example_params mtu send ret period =
     \<lparr> session_params.fPacketType = ''params'', fProtocolVersion = 4, fPacketID = 0,
       fName = ''slave'', fMasterNetName = ''master'', fSlaveNetName = ''slave'',
       fMtu = of_nat mtu, session_params.fID = 0, fTransportSync = 0,
       fSendAudioChannels = of_int send, fReturnAudioChannels = of_int ret,
       fSendMidiChannels = 0, fReturnMidiChannels = 0, fSampleRate = 48000,
       session_params.fPeriodSize = of_nat period, fSampleEncoder = 0, fKBps = 0,
       fSlaveSyncMode = 0, fNetworkLatency = 0 \<rparr>"

definition example_layout :: "nat \<Rightarrow> nat \<Rightarrow> nat \<Rightarrow> nat \<Rightarrow> port_ptr list \<Rightarrow> JackPortList" where
  "example_layout mtu period sub bytes ports =
     \<lparr> fPeriodSize = period, fSubPeriodSize = sub, fSubPeriodBytesSize = bytes,
       fPortBuffer = ports, fPacketSize = int mtu - 40,
       fCycleSize = mtu * (period div sub), fCycleDuration = FloatDiv sub 48000,
       fLastSubCycle = - 1 \<rparr>"


definition seq_pl :: "byte list \<Rightarrow> byte list \<Rightarrow> int \<Rightarrow> JackPortList" where
  "seq_pl buf_a buf_b last_sub_cycle =
     (example_layout 48 8 1 4 [Buffer buf_a, Buffer buf_b])\<lparr>fLastSubCycle := last_sub_cycle\<rparr>"

definition seq_net :: "byte list" where
  "seq_net = [0, 0, 0, 0, 1, 2, 3, 4, 1, 0, 0, 0, 5, 6, 7, 8]"

text \<open>
  Eight ports of which 1, 5 and 7 have a buffer of two frames; a sender whose buffers hold
  distinct bytes, the packet it renders for sub-cycle 0, and a receiver with the same three
  ports set.
\<close>

definition sparse_ports :: "byte list \<Rightarrow> byte list \<Rightarrow> byte list \<Rightarrow> port_ptr list" where
  "sparse_ports buf_a buf_b buf_c =
     [NullPtr, Buffer buf_a, NullPtr, NullPtr, NullPtr, Buffer buf_b, NullPtr, Buffer buf_c]"

definition sparse_sender :: "nat \<Rightarrow> JackPortList" where
  "sparse_sender bytes =
     example_layout 1500 2 2 bytes
       (sparse_ports [1, 2, 3, 4, 5, 6, 7, 8] [11, 12, 13, 14, 15, 16, 17, 18]
          [21, 22, 23, 24, 25, 26, 27, 28])"

definition sparse_packet :: "byte list" where
  "sparse_packet =
     [1, 0, 0, 0, 1, 2, 3, 4, 5, 6, 7, 8,
      5, 0, 0, 0, 11, 12, 13, 14, 15, 16, 17, 18,
      7, 0, 0, 0, 21, 22, 23, 24, 25, 26, 27, 28]"

definition sparse_receiver :: "byte list \<Rightarrow> byte list \<Rightarrow> byte list \<Rightarrow> JackPortList" where
  "sparse_receiver buf_a buf_b buf_c = example_layout 1500 2 2 12 (sparse_ports buf_a buf_b buf_c)"

text \<open>
  The indices, among those of a list, of the ports with a non-null pointer: the port
  numbers \<^verbatim>\<open>ActivePortsToNetwork\<close> writes, in the order it writes them.
\<close>

definition active_indices :: "port_ptr list \<Rightarrow> nat list \<Rightarrow> nat list" where
  "active_indices ports idxs = filter (\<lambda>i. ports ! i \<noteq> NullPtr) idxs"

section \<open>Properties of the audio frame layout\<close>

lemma floor_log2_bounds: "0 < n \<Longrightarrow> 2 ^ floor_log2 n \<le> n \<and> n < 2 ^ Suc (floor_log2 n)"
proof (induction n rule: floor_log2.induct)
  case (1 n)
  show ?case
  proof (cases "n < 2")
    case True
    with 1(2) show ?thesis by (simp add: floor_log2.simps)
  next
    case False
    then have pos: "0 < n div 2" by simp
    from 1(1) [OF False pos] have "2 ^ floor_log2 (n div 2) \<le> n div 2" "n div 2 < 2 ^ Suc (floor_log2 (n div 2))" by simp_all
    then have a: "2 * 2 ^ floor_log2 (n div 2) \<le> n" "n < 2 * 2 ^ Suc (floor_log2 (n div 2))" by linarith+
    have e: "floor_log2 n = Suc (floor_log2 (n div 2))" using False by (subst floor_log2.simps) simp
    show ?thesis unfolding e using a by simp
  qed
qed

lemma floor_log2_real:
  assumes "0 < n"
  shows "int (floor_log2 n) = \<lfloor>log 2 (real n)\<rfloor>"
proof -
  let ?k = "floor_log2 n"
  from floor_log2_bounds [OF assms] have b: "2 ^ ?k \<le> n" "n < 2 ^ Suc ?k" by simp_all
  have "real (2 ^ ?k) \<le> real n" using b(1) by (rule iffD2 [OF of_nat_le_iff])
  then have lo: "(2::real) powr real ?k \<le> real n" by (simp add: powr_realpow)
  have "real n < real (2 ^ Suc ?k)" using b(2) by (rule iffD2 [OF of_nat_less_iff])
  then have hi: "real n < (2::real) powr (real ?k + 1)" by (simp add: powr_realpow powr_add)
  have 1: "real ?k \<le> log 2 (real n)" using lo assms by (simp add: le_log_iff)
  have 2: "log 2 (real n) < real ?k + 1" using hi assms by (simp add: log_less_iff)
  show ?thesis using 1 2 by (intro floor_unique [symmetric]) simp_all
qed

lemma floor_log2_quotient:
  assumes "0 < b" "b \<le> a"
  shows "int (floor_log2 (a div b)) = \<lfloor>log 2 (real a / real b)\<rfloor>"
proof -
  let ?q = "a div b"
  let ?k = "floor_log2 ?q"
  have q: "0 < ?q" using assms by (simp add: div_greater_zero_iff)
  from floor_log2_bounds [OF q] have b: "2 ^ ?k \<le> ?q" "?q < 2 ^ Suc ?k" by simp_all
  have x: "0 < real a / real b" using assms by simp
  have "2 ^ ?k * b \<le> ?q * b" using b(1) by simp
  also have "\<dots> \<le> a" by simp
  finally have "real (2 ^ ?k * b) \<le> real a" by (rule iffD2 [OF of_nat_le_iff])
  then have "(2::real) ^ ?k \<le> real a / real b" using assms by (simp add: pos_le_divide_eq)
  then have lo: "(2::real) powr real ?k \<le> real a / real b" by (simp add: powr_realpow)
  have "Suc ?q \<le> 2 ^ Suc ?k" using b(2) by simp
  then have "Suc ?q * b \<le> 2 ^ Suc ?k * b" by (rule mult_le_mono1)
  moreover have "a < Suc ?q * b" using assms(1) by (simp add: dividend_less_times_div mult.commute)
  ultimately have "a < 2 ^ Suc ?k * b" by linarith
  then have "real a < real (2 ^ Suc ?k * b)" by (rule iffD2 [OF of_nat_less_iff])
  then have "real a / real b < (2::real) ^ Suc ?k" using assms by (simp add: pos_divide_less_eq)
  then have hi: "real a / real b < (2::real) powr (real ?k + 1)"
    by (simp add: powr_realpow powr_add)
  have 1: "real ?k \<le> log 2 (real a / real b)" using lo x by (simp add: le_log_iff)
  have 2: "log 2 (real a / real b) < real ?k + 1" using hi x by (simp add: log_less_iff)
  show ?thesis using 1 2 by (intro floor_unique [symmetric]) simp_all
qed

text \<open>
  \<open>log2_trunc a b\<close> is the binary logarithm of the real quotient, rounded towards zero.
\<close>

lemma log2_trunc_real:
  assumes "0 < a" "0 < b"
  shows "log2_trunc a b =
           (if 0 \<le> log 2 (real a / real b) then \<lfloor>log 2 (real a / real b)\<rfloor>
            else \<lceil>log 2 (real a / real b)\<rceil>)"
proof (cases "b \<le> a")
  case True
  then have "1 \<le> real a / real b" using assms by simp
  then have "0 \<le> log 2 (real a / real b)" by simp
  then show ?thesis using True floor_log2_quotient [OF assms(2) True] by (simp add: log2_trunc_def)
next
  case False
  then have ab: "a \<le> b" "a < b" by simp_all
  have "real a / real b < 1" using ab assms by simp
  moreover have "0 < real a / real b" using assms by simp
  ultimately have neg: "log 2 (real a / real b) < 0" by simp
  have "log 2 (real a / real b) = - log 2 (real b / real a)"
    using assms by (simp add: log_divide)
  then have "\<lceil>log 2 (real a / real b)\<rceil> = - \<lfloor>log 2 (real b / real a)\<rfloor>"
    by (simp add: ceiling_minus)
  also have "\<dots> = - int (floor_log2 (b div a))"
    using floor_log2_quotient [OF assms(1) ab(1)] by simp
  finally show ?thesis using False neg by (simp add: log2_trunc_def)
qed

lemma floor_log2_less: "0 < n \<Longrightarrow> n < 2 ^ k \<Longrightarrow> floor_log2 n < k"
proof -
  assume n: "0 < n" "n < 2 ^ k"
  from floor_log2_bounds [OF n(1)] have "(2::nat) ^ floor_log2 n \<le> n" by simp
  with n(2) have "(2::nat) ^ floor_log2 n < 2 ^ k" by linarith
  then show ?thesis by (rule power_less_imp_less_exp [rotated]) simp
qed

lemma floor_log2_small: "n < 2 \<Longrightarrow> floor_log2 n = 0"
  by (subst floor_log2.simps) simp

text \<open>The exact logarithm grows with the quotient.\<close>

lemma log2_trunc_mono:
  assumes "0 < a" "0 < b" "0 < c" "0 < d" and le: "a * d \<le> c * b"
  shows "log2_trunc a b \<le> log2_trunc c d"
proof -
  have "real (a * d) \<le> real (c * b)" using le by (rule iffD2 [OF of_nat_le_iff])
  then have q: "real a / real b \<le> real c / real d"
    using assms(2,4) by (simp add: field_simps)
  have pos: "0 < real a / real b" "0 < real c / real d" using assms(1-4) by simp_all
  have l: "log 2 (real a / real b) \<le> log 2 (real c / real d)"
    using q pos by simp
  have f: "\<lfloor>log 2 (real a / real b)\<rfloor> \<le> \<lfloor>log 2 (real c / real d)\<rfloor>" by (rule floor_mono [OF l])
  have c: "\<lceil>log 2 (real a / real b)\<rceil> \<le> \<lceil>log 2 (real c / real d)\<rceil>" by (rule ceiling_mono [OF l])
  show ?thesis
  proof (cases "0 \<le> log 2 (real a / real b)")
    case True
    then have "0 \<le> log 2 (real c / real d)" using l by simp
    with True f show ?thesis
      by (simp add: log2_trunc_real [OF assms(1,2)] log2_trunc_real [OF assms(3,4)])
  next
    case False
    then have neg: "\<lceil>log 2 (real a / real b)\<rceil> \<le> 0" by (simp add: ceiling_le_zero)
    show ?thesis
    proof (cases "0 \<le> log 2 (real c / real d)")
      case True
      then have "0 \<le> \<lfloor>log 2 (real c / real d)\<rfloor>" by simp
      with neg have "\<lceil>log 2 (real a / real b)\<rceil> \<le> \<lfloor>log 2 (real c / real d)\<rfloor>" by linarith
      then show ?thesis
        by (simp only: log2_trunc_real [OF assms(1,2)] log2_trunc_real [OF assms(3,4)]
              True False if_True if_False)
    next
      case nc: False
      with False c show ?thesis
        by (simp add: log2_trunc_real [OF assms(1,2)] log2_trunc_real [OF assms(3,4)])
    qed
  qed
qed

text \<open>The exact logarithm is one of the functions the accuracy condition admits.\<close>

lemma float_log2_accurate_exact: "float_log2_accurate log2_trunc"
  unfolding float_log2_accurate_def
proof (intro allI impI conjI)
  fix a b :: nat assume "0 < a \<and> 0 < b"
  then have p: "0 < a" "0 < b" by simp_all
  show "log2_trunc (1023 * a) (1024 * b) \<le> log2_trunc a b"
    by (rule log2_trunc_mono) (use p in simp_all)
  show "log2_trunc a b \<le> log2_trunc (1025 * a) (1024 * b)"
    by (rule log2_trunc_mono) (use p in simp_all)
qed

text \<open>Where both bounds agree, the exponent is determined.\<close>

lemma float_log2_accurate_at:
  assumes "float_log2_accurate lg" "0 < a" "0 < b"
    and "log2_trunc (1023 * a) (1024 * b) = k" "log2_trunc (1025 * a) (1024 * b) = k"
  shows "lg a b = k"
  using assms unfolding float_log2_accurate_def by (metis order_antisym)

lemma float_log2_accurate_values:
  assumes "float_log2_accurate lg"
  shows "lg 1460 8 = 7" "lg 1460 4 = 8" "lg 1460 12 = 6" "lg 8 8 = 0"
  by (rule float_log2_accurate_at [OF assms];
      simp add: log2_trunc_def floor_log2.simps)+

text \<open>
  For a packet size below \<open>2\<^sup>3\<^sup>1\<close> that holds the divisor, and a divisor of at least one
  sample, the exponent is from 0 to 30.
\<close>

lemma float_log2_accurate_range:
  assumes acc: "float_log2_accurate lg" and b: "4 \<le> b" "b \<le> a" and a: "a < 2 ^ 31"
  shows "0 \<le> lg a b" "lg a b < 31"
proof -
  have pos: "0 < a" "0 < b" using b by simp_all
  from acc pos have lo: "log2_trunc (1023 * a) (1024 * b) \<le> lg a b"
    and hi: "lg a b \<le> log2_trunc (1025 * a) (1024 * b)"
    unfolding float_log2_accurate_def by simp_all
  have "0 \<le> log2_trunc (1023 * a) (1024 * b)"
  proof (cases "1024 * b \<le> 1023 * a")
    case True
    then show ?thesis by (simp add: log2_trunc_def)
  next
    case False
    have "1024 * b < 2 * (1023 * a)" using b by simp
    then have "1024 * b div (1023 * a) < 2" using pos by (simp add: div_less_iff_less_mult)
    then have "floor_log2 (1024 * b div (1023 * a)) = 0" by (rule floor_log2_small)
    with False show ?thesis by (simp add: log2_trunc_def)
  qed
  with lo show "0 \<le> lg a b" by simp
  have le: "1024 * b \<le> 1025 * a" using b by simp
  have q0: "0 < 1025 * a div (1024 * b)" using le pos by (simp add: div_greater_zero_iff)
  have "1025 * a < 1024 * b * 2 ^ 30"
  proof -
    have "1025 * a < 1025 * 2 ^ 31" using a by simp
    also have "\<dots> \<le> 4096 * 2 ^ 30" by simp
    also have "\<dots> \<le> 1024 * b * 2 ^ 30" using b by simp
    finally show ?thesis .
  qed
  then have "1025 * a div (1024 * b) < 2 ^ 30"
    using pos by (simp add: div_less_iff_less_mult mult.commute)
  from floor_log2_less [OF q0 this] le
  have "log2_trunc (1025 * a) (1024 * b) < 30" by (simp add: log2_trunc_def)
  with hi show "lg a b < 31" by simp
qed

lemma sub_period_fits:
  assumes acc: "float_log2_accurate lg"
    and d: "4 \<le> divisor" "int divisor \<le> packet_size" and p: "packet_size < 2 ^ 31"
  shows "\<exists>j. sub_period lg packet_size divisor period_size = Inr (min (2 ^ j) period_size)"
proof -
  have le: "divisor \<le> nat packet_size" using d by linarith
  have lt: "nat packet_size < 2 ^ 31" using p d by (simp add: nat_less_iff)
  from float_log2_accurate_range [OF acc d(1) le lt]
  have r: "0 \<le> lg (nat packet_size) divisor" "lg (nat packet_size) divisor < 31" .
  have "sub_period lg packet_size divisor period_size
          = Inr (min (2 ^ nat (lg (nat packet_size) divisor)) period_size)"
    using r d by (simp add: sub_period_def powf2_int_def Let_def min_def)
  then show ?thesis by blast
qed

lemma min_pow2: "min ((2::nat) ^ j) (2 ^ k) = 2 ^ min j k"
  by (simp add: min_def)

lemma pow2_div_mult: "j \<le> k \<Longrightarrow> (2::nat) ^ k div 2 ^ j * 2 ^ j = 2 ^ k"
  by (simp add: le_imp_power_dvd)

lemma pow2_div_less: "k < 31 \<Longrightarrow> int ((2::nat) ^ k div 2 ^ j) < 2 ^ 31"
proof -
  assume k: "k < 31"
  have "(2::nat) ^ k div 2 ^ j \<le> 2 ^ k" by (rule div_le_dividend)
  also have "(2::nat) ^ k < 2 ^ 31" by (rule power_strict_increasing [OF k]) simp
  finally have "(2::nat) ^ k div 2 ^ j < 2 ^ 31" .
  then have "int ((2::nat) ^ k div 2 ^ j) < int (2 ^ 31)" by (rule iffD2 [OF of_nat_less_iff])
  then show ?thesis by simp
qed

lemma to_int32_id: "0 \<le> x \<Longrightarrow> x < 2 ^ 31 \<Longrightarrow> to_int32 x = x"
  by (simp add: to_int32_def)

text \<open>The clamp of a power of two to a period size that is a power of two.\<close>

lemma layout_pow2:
  assumes "k < 31"
  shows "to_int32 (int (2 ^ k div min (2 ^ j) (2 ^ k))) * int (min (2 ^ j) (2 ^ k)) = int (2 ^ k)"
    and "min ((2::nat) ^ j) (2 ^ k) \<noteq> 0"
proof -
  let ?s = "min ((2::nat) ^ j) (2 ^ k)"
  have s: "?s = 2 ^ min j k" by (rule min_pow2)
  have "to_int32 (int (2 ^ k div ?s)) = int (2 ^ k div ?s)"
    unfolding s by (rule to_int32_id) (simp, rule pow2_div_less [OF assms])
  moreover have "2 ^ k div ?s * ?s = 2 ^ k" unfolding s by (rule pow2_div_mult) simp
  ultimately show "to_int32 (int (2 ^ k div ?s)) * int ?s = int (2 ^ k)"
    by (metis of_nat_mult)
  show "?s \<noteq> 0" unfolding s by simp
qed


lemma ctor_layout:
  assumes acc: "float_log2_accurate lg"
    and P: "unat (session_params.fPeriodSize params) = 2 ^ k" and k: "k < 31"
    and n: "nports < 2 ^ 31" and mtu: "unat (fMtu params) < 2 ^ 31"
    and send: "0 \<le> sint (fSendAudioChannels params)"
    and ret: "0 \<le> sint (fReturnAudioChannels params)"
    and fits: "HEADER_SIZE + SAMPLE_SIZE * nat (max (sint (fReturnAudioChannels params))
                 (sint (fSendAudioChannels params))) \<le> unat (fMtu params)"
  shows "\<exists>pl j. JackPortList_ctor lg params nports = Inr pl \<and> fSubPeriodSize pl = 2 ^ j
           \<and> fSubPeriodSize pl \<le> 2 ^ k
           \<and> (\<exists>c. JackPortList_GetNumPackets pl = Inr c \<and> c * int (fSubPeriodSize pl) = 2 ^ k)"
proof -
  define C where "C = max (sint (fReturnAudioChannels params)) (sint (fSendAudioChannels params))"
  define m where "m = unat (fMtu params)"
  define ps where "ps = to_int32 (int m - int HEADER_SIZE)"
  have C0: "0 \<le> C" using send ret by (simp add: C_def)
  have fits': "HEADER_SIZE + SAMPLE_SIZE * nat C \<le> m" and mtu': "m < 2 ^ 31"
    using fits mtu by (simp_all add: C_def m_def)
  have psid: "ps = int m - int HEADER_SIZE"
    unfolding ps_def using fits' mtu' by (intro to_int32_id) (simp_all add: HEADER_SIZE_def)
  have Cle: "int SAMPLE_SIZE * C \<le> ps"
    using fits' C0 unfolding psid by (simp add: SAMPLE_SIZE_def HEADER_SIZE_def)
  have Cbound: "C < 2 ^ 31"
    using sint_lt [of "fReturnAudioChannels params"] sint_lt [of "fSendAudioChannels params"]
    by (simp add: C_def)
  have div: "(to_size_t C * SAMPLE_SIZE) mod 2 ^ 64 = nat C * SAMPLE_SIZE"
    using C0 Cbound by (simp add: to_size_t_def SAMPLE_SIZE_def nat_mod_distrib)
  obtain s where s: "(if sint (fSendAudioChannels params) = 0 \<and> sint (fReturnAudioChannels params) = 0
                 then Inr (2 ^ k)
                 else sub_period lg ps ((to_size_t C * SAMPLE_SIZE) mod 2 ^ 64) (2 ^ k)) = Inr s"
      and sj: "\<exists>j. s = min (2 ^ j) (2 ^ k)"
  proof (cases "sint (fSendAudioChannels params) = 0 \<and> sint (fReturnAudioChannels params) = 0")
    case True
    show ?thesis by (rule that [of "2 ^ k"]) (use True in simp, rule exI [of _ k], simp)
  next
    case False
    then have "0 < C" using send ret by (auto simp: C_def max_def)
    then have pos: "0 < nat C * SAMPLE_SIZE" by (simp add: SAMPLE_SIZE_def)
    have le: "int (nat C * SAMPLE_SIZE) \<le> ps" using Cle C0 by (simp add: mult.commute)
    have four: "4 \<le> nat C * SAMPLE_SIZE" using \<open>0 < C\<close> by (simp add: SAMPLE_SIZE_def)
    have small: "ps < 2 ^ 31" using mtu' unfolding psid by simp
    from sub_period_fits [OF acc four le small, of "2 ^ k"] obtain j where
      "sub_period lg ps ((to_size_t C * SAMPLE_SIZE) mod 2 ^ 64) (2 ^ k) = Inr (min (2 ^ j) (2 ^ k))"
      unfolding div by blast
    then have "(if sint (fSendAudioChannels params) = 0 \<and> sint (fReturnAudioChannels params) = 0
                 then Inr (2 ^ k)
                 else sub_period lg ps ((to_size_t C * SAMPLE_SIZE) mod 2 ^ 64) (2 ^ k)) =
            Inr (min (2 ^ j) (2 ^ k))"
      by (simp only: False if_False)
    then show ?thesis by (rule that) blast
  qed
  from sj obtain j where j: "s = min (2 ^ j) (2 ^ k)" ..
  have s0: "s \<noteq> 0" unfolding j by (rule layout_pow2(2) [OF k])
  let ?pl = "\<lparr> fPeriodSize = 2 ^ k, fSubPeriodSize = s, fSubPeriodBytesSize = s * SAMPLE_SIZE,
               fPortBuffer = replicate nports NullPtr, fPacketSize = ps,
               fCycleSize = (m * (2 ^ k div s)) mod 2 ^ 32,
               fCycleDuration = FloatDiv s (unat (fSampleRate params)),
               fLastSubCycle = - 1 \<rparr>"
  have ctor: "JackPortList_ctor lg params nports = Inr ?pl"
    using s s0 n unfolding JackPortList_ctor_def Let_def P m_def [symmetric] C_def [symmetric] ps_def [symmetric]
    by simp
  have "fSubPeriodSize ?pl = 2 ^ min j k" by (simp add: j min_pow2)
  moreover have "fSubPeriodSize ?pl \<le> 2 ^ k" by (simp add: j)
  moreover have "JackPortList_GetNumPackets ?pl = Inr (to_int32 (int (2 ^ k div s)))"
    using s0 by (simp add: JackPortList_GetNumPackets_def)
  moreover have "to_int32 (int (2 ^ k div s)) * int (fSubPeriodSize ?pl) = 2 ^ k"
    using layout_pow2(1) [OF k, of j] by (simp add: j)
  ultimately show ?thesis using ctor by blast
qed


lemma opt_layout:
  assumes acc: "float_log2_accurate lg"
    and P: "fPeriodSize pl = 2 ^ k" and k: "k < 31" and small: "fPacketSize pl < 2 ^ 31"
    and fits: "int (SAMPLE_SIZE * active_ports_count (fPortBuffer pl)) \<le> fPacketSize pl"
  shows "\<exists>c pl' j. JackOptimizedPortList_GetNumPackets lg pl = Inr (c, pl')
           \<and> fSubPeriodSize pl' = 2 ^ j \<and> fSubPeriodSize pl' \<le> fPeriodSize pl'
           \<and> fPeriodSize pl' = 2 ^ k \<and> c * int (fSubPeriodSize pl') = 2 ^ k"
proof -
  define a where "a = active_ports_count (fPortBuffer pl)"
  obtain s where s: "(if a = 0 then Inr (2 ^ k)
                 else sub_period lg (fPacketSize pl) (a * SAMPLE_SIZE) (2 ^ k)) = Inr s"
      and sj: "\<exists>j. s = min (2 ^ j) (2 ^ k)"
  proof (cases "a = 0")
    case True
    show ?thesis by (rule that [of "2 ^ k"]) (use True in simp, rule exI [of _ k], simp)
  next
    case False
    then have pos: "0 < a * SAMPLE_SIZE" by (simp add: SAMPLE_SIZE_def)
    have le: "int (a * SAMPLE_SIZE) \<le> fPacketSize pl"
      using fits by (simp add: a_def mult.commute)
    have four: "4 \<le> a * SAMPLE_SIZE" using False by (simp add: SAMPLE_SIZE_def)
    from sub_period_fits [OF acc four le small, of "2 ^ k"] obtain j where
      "sub_period lg (fPacketSize pl) (a * SAMPLE_SIZE) (2 ^ k) = Inr (min (2 ^ j) (2 ^ k))"
      by blast
    then have "(if a = 0 then Inr (2 ^ k)
                 else sub_period lg (fPacketSize pl) (a * SAMPLE_SIZE) (2 ^ k)) =
            Inr (min (2 ^ j) (2 ^ k))"
      by (simp only: False if_False)
    then show ?thesis by (rule that) blast
  qed
  from sj obtain j where j: "s = min (2 ^ j) (2 ^ k)" ..
  have s0: "s \<noteq> 0" unfolding j by (rule layout_pow2(2) [OF k])
  let ?pl = "pl\<lparr>fSubPeriodSize := s, fSubPeriodBytesSize := s * SAMPLE_SIZE + 4\<rparr>"
  have run: "JackOptimizedPortList_GetNumPackets lg pl = Inr (to_int32 (int (2 ^ k div s)), ?pl)"
    using s s0 unfolding JackOptimizedPortList_GetNumPackets_def Let_def P a_def [symmetric]
    by simp
  have "fSubPeriodSize ?pl = 2 ^ min j k" by (simp add: j min_pow2)
  moreover have "fSubPeriodSize ?pl \<le> fPeriodSize ?pl" by (simp add: j P)
  moreover have "fPeriodSize ?pl = 2 ^ k" by (simp add: P)
  moreover have "to_int32 (int (2 ^ k div s)) * int (fSubPeriodSize ?pl) = 2 ^ k"
    using layout_pow2(1) [OF k, of j] by (simp add: j)
  ultimately show ?thesis using run by blast
qed



lemmas layout_eval = JackPortList_ctor_def JackPortList_GetNumPackets_def
  JackOptimizedPortList_GetNumPackets_def example_params_def example_layout_def sub_period_def
  powf2_int_def Let_def to_int32_def to_size_t_def HEADER_SIZE_def SAMPLE_SIZE_def
  active_ports_count_def

lemmas exact_eval = log2_trunc_def floor_log2.simps

text \<open>
  A logarithm that rounds down is admitted as well. With an MTU of 32808 and one channel the
  quotient is \<open>32768 / 4 = 2\<^sup>1\<^sup>3\<close>: the exact logarithm gives 13 and a sub-period of 8192, a
  computation that falls just below gives 12 and a sub-period of 4096, in four packets for a
  period of 16384.
\<close>

lemma float_log2_accurate_below:
  "float_log2_accurate (\<lambda>a b. log2_trunc (1023 * a) (1024 * b))"
  unfolding float_log2_accurate_def
proof (intro allI impI conjI)
  fix a b :: nat
  assume "0 < a \<and> 0 < b"
  then show "log2_trunc (1023 * a) (1024 * b) \<le> log2_trunc (1025 * a) (1024 * b)"
    by (intro log2_trunc_mono) simp_all
qed simp

lemma ctor_at_power_of_two_quotient:
  "JackPortList_ctor (\<lambda>a b. log2_trunc (1023 * a) (1024 * b)) (example_params 32808 1 1 16384) 1
     = Inr (example_layout 32808 16384 4096 16384 (replicate 1 NullPtr))"
  "JackPortList_GetNumPackets (example_layout 32808 16384 4096 16384 (replicate 1 NullPtr)) = Inr 4"
  "JackPortList_ctor log2_trunc (example_params 32808 1 1 16384) 1
     = Inr (example_layout 32808 16384 8192 32768 (replicate 1 NullPtr))"
  by (simp_all add: layout_eval exact_eval)

text \<open>
  Claim C1, as the code has it. Let the floating-point logarithm be accurate as described
  above. When the period size is a power of two below \<open>2\<^sup>3\<^sup>1\<close>, there are fewer than
  \<open>2\<^sup>3\<^sup>1\<close> ports, the channel counts are not negative and the MTU (below \<open>2\<^sup>3\<^sup>1\<close>) leaves
  room, after the header, for one sample of every channel, the constructor returns a port
  list whose \<^verbatim>\<open>fSubPeriodSize\<close> is a power of two, is at most the period size, and multiplied
  by the result of \<^verbatim>\<open>GetNumPackets\<close> gives the period size. The same holds for the sizing
  that \<^verbatim>\<open>JackOptimizedPortList::GetNumPackets\<close> does every cycle from the number of ports
  with a non-null buffer, for a packet size below \<open>2\<^sup>3\<^sup>1\<close>. With an MTU of 1500, two channels
  and a period of 1024 frames, \<^verbatim>\<open>fSubPeriodSize\<close> is 128 and both \<^verbatim>\<open>GetNumPackets\<close> return 8.
\<close>

theorem audio_frame_layout_power_of_two:
  "float_log2_accurate lg \<longrightarrow>
   (unat (session_params.fPeriodSize params) = 2 ^ k \<and> k < 31 \<and> nports < 2 ^ 31
      \<and> unat (fMtu params) < 2 ^ 31
      \<and> 0 \<le> sint (fSendAudioChannels params) \<and> 0 \<le> sint (fReturnAudioChannels params)
      \<and> HEADER_SIZE + SAMPLE_SIZE * nat (max (sint (fReturnAudioChannels params))
            (sint (fSendAudioChannels params))) \<le> unat (fMtu params)
    \<longrightarrow> (\<exists>pl' j. JackPortList_ctor lg params nports = Inr pl' \<and> fSubPeriodSize pl' = 2 ^ j
           \<and> fSubPeriodSize pl' \<le> 2 ^ k
           \<and> (\<exists>c. JackPortList_GetNumPackets pl' = Inr c \<and> c * int (fSubPeriodSize pl') = 2 ^ k)))
   \<and> (fPeriodSize pl = 2 ^ k \<and> k < 31 \<and> fPacketSize pl < 2 ^ 31
      \<and> int (SAMPLE_SIZE * active_ports_count (fPortBuffer pl)) \<le> fPacketSize pl
    \<longrightarrow> (\<exists>c pl' j. JackOptimizedPortList_GetNumPackets lg pl = Inr (c, pl')
           \<and> fSubPeriodSize pl' = 2 ^ j \<and> fSubPeriodSize pl' \<le> fPeriodSize pl'
           \<and> fPeriodSize pl' = 2 ^ k \<and> c * int (fSubPeriodSize pl') = 2 ^ k))
   \<and> JackPortList_ctor lg (example_params 1500 2 2 1024) 2
        = Inr (example_layout 1500 1024 128 512 (replicate 2 NullPtr))
   \<and> JackPortList_GetNumPackets (example_layout 1500 1024 128 512 (replicate 2 NullPtr)) = Inr 8
   \<and> JackOptimizedPortList_GetNumPackets lg
          (example_layout 1500 1024 128 512 [ConnectedMark, ConnectedMark])
        = Inr (8, example_layout 1500 1024 128 516 [ConnectedMark, ConnectedMark])"
proof (rule impI)
  assume acc: "float_log2_accurate lg"
  note v = float_log2_accurate_values [OF acc]
  show "(unat (session_params.fPeriodSize params) = 2 ^ k \<and> k < 31 \<and> nports < 2 ^ 31
      \<and> unat (fMtu params) < 2 ^ 31
      \<and> 0 \<le> sint (fSendAudioChannels params) \<and> 0 \<le> sint (fReturnAudioChannels params)
      \<and> HEADER_SIZE + SAMPLE_SIZE * nat (max (sint (fReturnAudioChannels params))
            (sint (fSendAudioChannels params))) \<le> unat (fMtu params)
    \<longrightarrow> (\<exists>pl' j. JackPortList_ctor lg params nports = Inr pl' \<and> fSubPeriodSize pl' = 2 ^ j
           \<and> fSubPeriodSize pl' \<le> 2 ^ k
           \<and> (\<exists>c. JackPortList_GetNumPackets pl' = Inr c \<and> c * int (fSubPeriodSize pl') = 2 ^ k)))
   \<and> (fPeriodSize pl = 2 ^ k \<and> k < 31 \<and> fPacketSize pl < 2 ^ 31
      \<and> int (SAMPLE_SIZE * active_ports_count (fPortBuffer pl)) \<le> fPacketSize pl
    \<longrightarrow> (\<exists>c pl' j. JackOptimizedPortList_GetNumPackets lg pl = Inr (c, pl')
           \<and> fSubPeriodSize pl' = 2 ^ j \<and> fSubPeriodSize pl' \<le> fPeriodSize pl'
           \<and> fPeriodSize pl' = 2 ^ k \<and> c * int (fSubPeriodSize pl') = 2 ^ k))
   \<and> JackPortList_ctor lg (example_params 1500 2 2 1024) 2
        = Inr (example_layout 1500 1024 128 512 (replicate 2 NullPtr))
   \<and> JackPortList_GetNumPackets (example_layout 1500 1024 128 512 (replicate 2 NullPtr)) = Inr 8
   \<and> JackOptimizedPortList_GetNumPackets lg
          (example_layout 1500 1024 128 512 [ConnectedMark, ConnectedMark])
        = Inr (8, example_layout 1500 1024 128 516 [ConnectedMark, ConnectedMark])"
  proof (intro conjI impI)
    assume "unat (session_params.fPeriodSize params) = 2 ^ k \<and> k < 31 \<and> nports < 2 ^ 31
      \<and> unat (fMtu params) < 2 ^ 31
      \<and> 0 \<le> sint (fSendAudioChannels params) \<and> 0 \<le> sint (fReturnAudioChannels params)
      \<and> HEADER_SIZE + SAMPLE_SIZE * nat (max (sint (fReturnAudioChannels params))
            (sint (fSendAudioChannels params))) \<le> unat (fMtu params)"
    then show "\<exists>pl' j. JackPortList_ctor lg params nports = Inr pl' \<and> fSubPeriodSize pl' = 2 ^ j
           \<and> fSubPeriodSize pl' \<le> 2 ^ k
           \<and> (\<exists>c. JackPortList_GetNumPackets pl' = Inr c \<and> c * int (fSubPeriodSize pl') = 2 ^ k)"
      using ctor_layout [OF acc, of params k nports] by blast
  next
    assume "fPeriodSize pl = 2 ^ k \<and> k < 31 \<and> fPacketSize pl < 2 ^ 31
      \<and> int (SAMPLE_SIZE * active_ports_count (fPortBuffer pl)) \<le> fPacketSize pl"
    then show "\<exists>c pl' j. JackOptimizedPortList_GetNumPackets lg pl = Inr (c, pl')
           \<and> fSubPeriodSize pl' = 2 ^ j \<and> fSubPeriodSize pl' \<le> fPeriodSize pl'
           \<and> fPeriodSize pl' = 2 ^ k \<and> c * int (fSubPeriodSize pl') = 2 ^ k"
      using opt_layout [OF acc, of pl k] by blast
  next
    show "JackPortList_ctor lg (example_params 1500 2 2 1024) 2
        = Inr (example_layout 1500 1024 128 512 (replicate 2 NullPtr))"
      by (simp add: layout_eval v)
  next
    show "JackPortList_GetNumPackets (example_layout 1500 1024 128 512 (replicate 2 NullPtr)) = Inr 8"
      by (simp add: layout_eval)
  next
    show "JackOptimizedPortList_GetNumPackets lg
          (example_layout 1500 1024 128 512 [ConnectedMark, ConnectedMark])
        = Inr (8, example_layout 1500 1024 128 516 [ConnectedMark, ConnectedMark])"
      by (simp add: layout_eval v)
  qed
qed

theorem audio_frame_layout_power_of_two_witness:
  "float_log2_accurate log2_trunc
   \<and> (unat (session_params.fPeriodSize (example_params 1500 2 2 1024)) = 2 ^ 10 \<and> (10::nat) < 31
      \<and> (2::nat) < 2 ^ 31 \<and> unat (fMtu (example_params 1500 2 2 1024)) < 2 ^ 31
      \<and> 0 \<le> sint (fSendAudioChannels (example_params 1500 2 2 1024))
      \<and> 0 \<le> sint (fReturnAudioChannels (example_params 1500 2 2 1024))
      \<and> HEADER_SIZE + SAMPLE_SIZE * nat (max (sint (fReturnAudioChannels (example_params 1500 2 2 1024)))
            (sint (fSendAudioChannels (example_params 1500 2 2 1024))))
          \<le> unat (fMtu (example_params 1500 2 2 1024)))
   \<and> (\<exists>pl' j. JackPortList_ctor log2_trunc (example_params 1500 2 2 1024) 2 = Inr pl'
           \<and> fSubPeriodSize pl' = 2 ^ j \<and> fSubPeriodSize pl' \<le> 2 ^ 10
           \<and> (\<exists>c. JackPortList_GetNumPackets pl' = Inr c
                 \<and> c * int (fSubPeriodSize pl') = 2 ^ 10))
   \<and> (fPeriodSize (example_layout 1500 1024 128 512 [ConnectedMark, ConnectedMark]) = 2 ^ 10
      \<and> fPacketSize (example_layout 1500 1024 128 512 [ConnectedMark, ConnectedMark]) < 2 ^ 31
      \<and> int (SAMPLE_SIZE * active_ports_count
               (fPortBuffer (example_layout 1500 1024 128 512 [ConnectedMark, ConnectedMark])))
          \<le> fPacketSize (example_layout 1500 1024 128 512 [ConnectedMark, ConnectedMark]))
   \<and> (\<exists>c pl' j. JackOptimizedPortList_GetNumPackets log2_trunc
                   (example_layout 1500 1024 128 512 [ConnectedMark, ConnectedMark]) = Inr (c, pl')
           \<and> fSubPeriodSize pl' = 2 ^ j \<and> fSubPeriodSize pl' \<le> fPeriodSize pl'
           \<and> fPeriodSize pl' = 2 ^ 10 \<and> c * int (fSubPeriodSize pl') = 2 ^ 10)
   \<and> JackPortList_ctor log2_trunc (example_params 1500 2 2 1024) 2
        = Inr (example_layout 1500 1024 128 512 (replicate 2 NullPtr))
   \<and> JackOptimizedPortList_GetNumPackets log2_trunc
          (example_layout 1500 1024 128 512 [ConnectedMark, ConnectedMark])
        = Inr (8, example_layout 1500 1024 128 516 [ConnectedMark, ConnectedMark])"
proof -
  have h0: "float_log2_accurate log2_trunc" by (rule float_log2_accurate_exact)
  have h1: "unat (session_params.fPeriodSize (example_params 1500 2 2 1024)) = 2 ^ 10 \<and> (10::nat) < 31
      \<and> (2::nat) < 2 ^ 31 \<and> unat (fMtu (example_params 1500 2 2 1024)) < 2 ^ 31
      \<and> 0 \<le> sint (fSendAudioChannels (example_params 1500 2 2 1024))
      \<and> 0 \<le> sint (fReturnAudioChannels (example_params 1500 2 2 1024))
      \<and> HEADER_SIZE + SAMPLE_SIZE * nat (max (sint (fReturnAudioChannels (example_params 1500 2 2 1024)))
            (sint (fSendAudioChannels (example_params 1500 2 2 1024))))
          \<le> unat (fMtu (example_params 1500 2 2 1024))"
    by (simp add: example_params_def HEADER_SIZE_def SAMPLE_SIZE_def)
  have h2: "fPeriodSize (example_layout 1500 1024 128 512 [ConnectedMark, ConnectedMark]) = 2 ^ 10
      \<and> (10::nat) < 31
      \<and> fPacketSize (example_layout 1500 1024 128 512 [ConnectedMark, ConnectedMark]) < 2 ^ 31
      \<and> int (SAMPLE_SIZE * active_ports_count
               (fPortBuffer (example_layout 1500 1024 128 512 [ConnectedMark, ConnectedMark])))
          \<le> fPacketSize (example_layout 1500 1024 128 512 [ConnectedMark, ConnectedMark])"
    by (simp add: example_layout_def SAMPLE_SIZE_def active_ports_count_def)
  note t = audio_frame_layout_power_of_two [where lg = log2_trunc
      and params = "example_params 1500 2 2 1024" and k = 10 and nports = 2
      and pl = "example_layout 1500 1024 128 512 [ConnectedMark, ConnectedMark]"]
  from t h0 h1 h2 show ?thesis by blast
qed

text \<open>
  The claim as it is written puts no condition on the period size. With an MTU of 1500,
  two channels and a period of 1000 frames, the quotient is 182.5 and every accurate
  logarithm gives the exponent 7 (lemma \<open>float_log2_accurate_values\<close>), here the exact one:
  \<^verbatim>\<open>fSubPeriodSize\<close> is 128, \<^verbatim>\<open>GetNumPackets\<close> returns 7, and \<open>7 \<times> 128\<close> is not 1000.
\<close>

theorem audio_frame_layout_counterexample:
  "JackPortList_ctor log2_trunc (example_params 1500 2 2 1000) 2
     = Inr (example_layout 1500 1000 128 512 (replicate 2 NullPtr))
   \<and> fSubPeriodSize (example_layout 1500 1000 128 512 (replicate 2 NullPtr)) = 128
   \<and> JackPortList_GetNumPackets (example_layout 1500 1000 128 512 (replicate 2 NullPtr)) = Inr 7
   \<and> (7 :: int) * 128 \<noteq> 1000"
  by (simp add: layout_eval exact_eval)

lemma to_int32_one: "to_int32 1 = 1"
  by (simp add: to_int32_def)

lemma ctor_zero_channels:
  assumes z: "sint (fSendAudioChannels params) = 0" "sint (fReturnAudioChannels params) = 0"
  shows "JackPortList_ctor lg params nports = Inr pl \<Longrightarrow>
           fSubPeriodSize pl = unat (session_params.fPeriodSize params)
           \<and> fPeriodSize pl = unat (session_params.fPeriodSize params)"
    and "0 < unat (session_params.fPeriodSize params) \<Longrightarrow> nports < 2 ^ 31 \<Longrightarrow>
           \<exists>pl'. JackPortList_ctor lg params nports = Inr pl'
             \<and> fSubPeriodSize pl' = unat (session_params.fPeriodSize params)
             \<and> JackPortList_GetNumPackets pl' = Inr 1"
  using z
  by (auto simp: JackPortList_ctor_def JackPortList_GetNumPackets_def Let_def to_int32_one
           split: if_splits)

lemma opt_zero_active:
  assumes z: "active_ports_count (fPortBuffer pl) = 0"
  shows "JackOptimizedPortList_GetNumPackets lg pl = Inr (c, pl') \<Longrightarrow>
           fSubPeriodSize pl' = fPeriodSize pl \<and> fPeriodSize pl' = fPeriodSize pl"
    and "0 < fPeriodSize pl \<Longrightarrow>
           \<exists>pl'. JackOptimizedPortList_GetNumPackets lg pl = Inr (1, pl')
             \<and> fSubPeriodSize pl' = fPeriodSize pl"
  using z
  by (auto simp: JackOptimizedPortList_GetNumPackets_def Let_def to_int32_one split: if_splits)

lemma ctor_cycle_fields:
  assumes "JackPortList_ctor lg params nports = Inr pl"
  shows "fCycleSize pl = (unat (fMtu params) * (unat (session_params.fPeriodSize params)
            div fSubPeriodSize pl)) mod 2 ^ 32"
    and "fCycleDuration pl = FloatDiv (fSubPeriodSize pl) (unat (fSampleRate params))"
  using assms
  by (auto simp: JackPortList_ctor_def Let_def split: if_splits sum.splits)

lemma opt_GetNumPackets_frame:
  assumes "JackOptimizedPortList_GetNumPackets lg pl = Inr (c, pl')"
  shows "fCycleSize pl' = fCycleSize pl" "fCycleDuration pl' = fCycleDuration pl"
    "fSubPeriodBytesSize pl' = fSubPeriodSize pl' * SAMPLE_SIZE + 4"
  using assms
  by (auto simp: JackOptimizedPortList_GetNumPackets_def Let_def split: if_splits sum.splits)

text \<open>
  Claim C7. When the send and the return channel counts are both zero, the port list the
  constructor returns has \<^verbatim>\<open>fSubPeriodSize\<close> equal to the period size, and for a positive
  period size the constructor does return and \<^verbatim>\<open>GetNumPackets\<close> is 1. When no port has a
  non-null buffer, \<^verbatim>\<open>JackOptimizedPortList::GetNumPackets\<close> sets \<^verbatim>\<open>fSubPeriodSize\<close> to the
  period size, and for a positive period size it returns 1.
\<close>

theorem zero_channels_whole_period:
  "(sint (fSendAudioChannels params) = 0 \<and> sint (fReturnAudioChannels params) = 0
      \<and> JackPortList_ctor lg params nports = Inr pli
    \<longrightarrow> fSubPeriodSize pli = unat (session_params.fPeriodSize params)
        \<and> fSubPeriodSize pli = fPeriodSize pli)
   \<and> (sint (fSendAudioChannels params) = 0 \<and> sint (fReturnAudioChannels params) = 0
      \<and> 0 < unat (session_params.fPeriodSize params) \<and> nports < 2 ^ 31
    \<longrightarrow> (\<exists>plc. JackPortList_ctor lg params nports = Inr plc
           \<and> fSubPeriodSize plc = unat (session_params.fPeriodSize params)
           \<and> JackPortList_GetNumPackets plc = Inr 1))
   \<and> (active_ports_count (fPortBuffer pl) = 0
      \<and> JackOptimizedPortList_GetNumPackets lg pl = Inr (c, pl')
    \<longrightarrow> fSubPeriodSize pl' = fPeriodSize pl \<and> fSubPeriodSize pl' = fPeriodSize pl')
   \<and> (active_ports_count (fPortBuffer pl) = 0 \<and> 0 < fPeriodSize pl
    \<longrightarrow> (\<exists>pld. JackOptimizedPortList_GetNumPackets lg pl = Inr (1, pld)
           \<and> fSubPeriodSize pld = fPeriodSize pl))"
  using ctor_zero_channels(1) [where lg = lg and params = params and nports = nports and pl = pli]
    ctor_zero_channels(2) [where lg = lg and params = params and nports = nports]
    opt_zero_active(1) [where lg = lg and pl = pl and c = c and pl' = pl']
    opt_zero_active(2) [where lg = lg and pl = pl]
  by simp

theorem zero_channels_whole_period_witness:
  "(sint (fSendAudioChannels (example_params 1500 0 0 1024)) = 0
      \<and> sint (fReturnAudioChannels (example_params 1500 0 0 1024)) = 0
      \<and> JackPortList_ctor log2_trunc (example_params 1500 0 0 1024) 2
           = Inr (example_layout 1500 1024 1024 4096 (replicate 2 NullPtr))
      \<and> 0 < unat (session_params.fPeriodSize (example_params 1500 0 0 1024)) \<and> (2::nat) < 2 ^ 31)
   \<and> fSubPeriodSize (example_layout 1500 1024 1024 4096 (replicate 2 NullPtr))
        = unat (session_params.fPeriodSize (example_params 1500 0 0 1024))
   \<and> (\<exists>plc. JackPortList_ctor log2_trunc (example_params 1500 0 0 1024) 2 = Inr plc
           \<and> fSubPeriodSize plc = unat (session_params.fPeriodSize (example_params 1500 0 0 1024))
           \<and> JackPortList_GetNumPackets plc = Inr 1)
   \<and> (active_ports_count (fPortBuffer (example_layout 1500 1024 128 512 [NullPtr, NullPtr])) = 0
      \<and> JackOptimizedPortList_GetNumPackets log2_trunc (example_layout 1500 1024 128 512 [NullPtr, NullPtr])
           = Inr (1, (example_layout 1500 1024 128 512 [NullPtr, NullPtr])
               \<lparr>fSubPeriodSize := 1024, fSubPeriodBytesSize := 4100\<rparr>)
      \<and> 0 < fPeriodSize (example_layout 1500 1024 128 512 [NullPtr, NullPtr]))
   \<and> fSubPeriodSize ((example_layout 1500 1024 128 512 [NullPtr, NullPtr])
               \<lparr>fSubPeriodSize := 1024, fSubPeriodBytesSize := 4100\<rparr>)
        = fPeriodSize (example_layout 1500 1024 128 512 [NullPtr, NullPtr])
   \<and> (\<exists>pld. JackOptimizedPortList_GetNumPackets log2_trunc (example_layout 1500 1024 128 512 [NullPtr, NullPtr])
                = Inr (1, pld)
           \<and> fSubPeriodSize pld = fPeriodSize (example_layout 1500 1024 128 512 [NullPtr, NullPtr]))"
proof -
  have h1: "sint (fSendAudioChannels (example_params 1500 0 0 1024)) = 0
      \<and> sint (fReturnAudioChannels (example_params 1500 0 0 1024)) = 0
      \<and> JackPortList_ctor log2_trunc (example_params 1500 0 0 1024) 2
           = Inr (example_layout 1500 1024 1024 4096 (replicate 2 NullPtr))
      \<and> 0 < unat (session_params.fPeriodSize (example_params 1500 0 0 1024)) \<and> (2::nat) < 2 ^ 31"
    by (simp add: layout_eval exact_eval)
  have h2: "active_ports_count (fPortBuffer (example_layout 1500 1024 128 512 [NullPtr, NullPtr])) = 0
      \<and> JackOptimizedPortList_GetNumPackets log2_trunc (example_layout 1500 1024 128 512 [NullPtr, NullPtr])
           = Inr (1, (example_layout 1500 1024 128 512 [NullPtr, NullPtr])
               \<lparr>fSubPeriodSize := 1024, fSubPeriodBytesSize := 4100\<rparr>)
      \<and> 0 < fPeriodSize (example_layout 1500 1024 128 512 [NullPtr, NullPtr])"
    by (simp add: layout_eval exact_eval)
  note t = zero_channels_whole_period [where lg = log2_trunc and params = "example_params 1500 0 0 1024"
      and nports = 2 and pli = "example_layout 1500 1024 1024 4096 (replicate 2 NullPtr)"
      and pl = "example_layout 1500 1024 128 512 [NullPtr, NullPtr]" and c = 1
      and pl' = "(example_layout 1500 1024 128 512 [NullPtr, NullPtr])
               \<lparr>fSubPeriodSize := 1024, fSubPeriodBytesSize := 4100\<rparr>"]
  from t h1 h2 show ?thesis by blast
qed

text \<open>
  Claim C10. \<^verbatim>\<open>fCycleSize\<close> and \<^verbatim>\<open>fCycleDuration\<close> are written by the constructor, from
  the MTU, the period size, the sample rate and the \<^verbatim>\<open>fSubPeriodSize\<close> it has just computed
  from the configured channel counts; the product is a \<^verbatim>\<open>uint32_t\<close> one and is the exact
  product when that is below \<open>2\<^sup>3\<^sup>2\<close>. \<^verbatim>\<open>JackOptimizedPortList::GetNumPackets\<close> writes
  \<^verbatim>\<open>fSubPeriodSize\<close> and \<^verbatim>\<open>fSubPeriodBytesSize\<close> and leaves what \<^verbatim>\<open>GetCycleSize\<close> and
  \<^verbatim>\<open>GetCycleDuration\<close> return as it was, and so does \<^verbatim>\<open>RenderToJackPorts\<close>. For an MTU of
  1500, two channels and a period of 1024, one active port moves \<^verbatim>\<open>fSubPeriodSize\<close> from 128
  to 256 and the packet count from 8 to 4 (for every accurate logarithm), while the cycle
  size stays \<open>1500 \<times> 8\<close> and the cycle duration stays the quotient of 128 and 48000.
\<close>

theorem cycle_size_and_duration_set_once:
  "(JackPortList_ctor lg params nports = Inr pli
    \<longrightarrow> GetCycleSize pli = (unat (fMtu params) * (unat (session_params.fPeriodSize params)
                                div fSubPeriodSize pli)) mod 2 ^ 32
        \<and> GetCycleDuration pli = FloatDiv (fSubPeriodSize pli) (unat (fSampleRate params)))
   \<and> (JackPortList_ctor lg params nports = Inr pli
        \<and> unat (fMtu params) * (unat (session_params.fPeriodSize params) div fSubPeriodSize pli)
            < 2 ^ 32
    \<longrightarrow> GetCycleSize pli = unat (fMtu params) * (unat (session_params.fPeriodSize params)
                                div fSubPeriodSize pli))
   \<and> (JackOptimizedPortList_GetNumPackets lg pl = Inr (c, pl')
    \<longrightarrow> GetCycleSize pl' = GetCycleSize pl \<and> GetCycleDuration pl' = GetCycleDuration pl
        \<and> fSubPeriodBytesSize pl' = fSubPeriodSize pl' * SAMPLE_SIZE + 4)
   \<and> GetCycleSize (JackPortList_RenderToJackPorts e pl) = GetCycleSize pl
   \<and> GetCycleDuration (JackPortList_RenderToJackPorts e pl) = GetCycleDuration pl
   \<and> (float_log2_accurate lg
    \<longrightarrow> JackOptimizedPortList_GetNumPackets lg (example_layout 1500 1024 128 512 [ConnectedMark, NullPtr])
        = Inr (4, (example_layout 1500 1024 128 512 [ConnectedMark, NullPtr])
                    \<lparr>fSubPeriodSize := 256, fSubPeriodBytesSize := 1028\<rparr>))
   \<and> GetCycleSize ((example_layout 1500 1024 128 512 [ConnectedMark, NullPtr])
                    \<lparr>fSubPeriodSize := 256, fSubPeriodBytesSize := 1028\<rparr>) = 1500 * 8
   \<and> GetCycleDuration ((example_layout 1500 1024 128 512 [ConnectedMark, NullPtr])
                    \<lparr>fSubPeriodSize := 256, fSubPeriodBytesSize := 1028\<rparr>) = FloatDiv 128 48000"
proof (intro conjI impI)
  assume a: "JackPortList_ctor lg params nports = Inr pli"
  show "GetCycleSize pli = (unat (fMtu params) * (unat (session_params.fPeriodSize params)
                                div fSubPeriodSize pli)) mod 2 ^ 32"
    unfolding GetCycleSize_def by (rule ctor_cycle_fields(1) [OF a])
  show "GetCycleDuration pli = FloatDiv (fSubPeriodSize pli) (unat (fSampleRate params))"
    unfolding GetCycleDuration_def by (rule ctor_cycle_fields(2) [OF a])
next
  assume a: "JackPortList_ctor lg params nports = Inr pli
        \<and> unat (fMtu params) * (unat (session_params.fPeriodSize params) div fSubPeriodSize pli)
            < 2 ^ 32"
  then show "GetCycleSize pli = unat (fMtu params) * (unat (session_params.fPeriodSize params)
                                div fSubPeriodSize pli)"
    unfolding GetCycleSize_def using ctor_cycle_fields(1) [of lg params nports pli] by simp
next
  assume a: "JackOptimizedPortList_GetNumPackets lg pl = Inr (c, pl')"
  show "GetCycleSize pl' = GetCycleSize pl"
    unfolding GetCycleSize_def by (rule opt_GetNumPackets_frame(1) [OF a])
  show "GetCycleDuration pl' = GetCycleDuration pl"
    unfolding GetCycleDuration_def by (rule opt_GetNumPackets_frame(2) [OF a])
  show "fSubPeriodBytesSize pl' = fSubPeriodSize pl' * SAMPLE_SIZE + 4"
    by (rule opt_GetNumPackets_frame(3) [OF a])
next
  show "GetCycleSize (JackPortList_RenderToJackPorts e pl) = GetCycleSize pl"
    by (cases e) (simp_all add: GetCycleSize_def JackPortList_RenderToJackPorts_def)
  show "GetCycleDuration (JackPortList_RenderToJackPorts e pl) = GetCycleDuration pl"
    by (cases e) (simp_all add: GetCycleDuration_def JackPortList_RenderToJackPorts_def)
next
  assume acc: "float_log2_accurate lg"
  show "JackOptimizedPortList_GetNumPackets lg (example_layout 1500 1024 128 512 [ConnectedMark, NullPtr])
        = Inr (4, (example_layout 1500 1024 128 512 [ConnectedMark, NullPtr])
                    \<lparr>fSubPeriodSize := 256, fSubPeriodBytesSize := 1028\<rparr>)"
    by (simp add: layout_eval float_log2_accurate_values [OF acc])
next
  show "GetCycleSize ((example_layout 1500 1024 128 512 [ConnectedMark, NullPtr])
                    \<lparr>fSubPeriodSize := 256, fSubPeriodBytesSize := 1028\<rparr>) = 1500 * 8"
    by (simp add: GetCycleSize_def example_layout_def)
  show "GetCycleDuration ((example_layout 1500 1024 128 512 [ConnectedMark, NullPtr])
                    \<lparr>fSubPeriodSize := 256, fSubPeriodBytesSize := 1028\<rparr>) = FloatDiv 128 48000"
    by (simp add: GetCycleDuration_def example_layout_def)
qed

theorem cycle_size_and_duration_set_once_witness:
  "float_log2_accurate log2_trunc
   \<and> (JackPortList_ctor log2_trunc (example_params 1500 2 2 1024) 2
        = Inr (example_layout 1500 1024 128 512 (replicate 2 NullPtr))
      \<and> unat (fMtu (example_params 1500 2 2 1024))
           * (unat (session_params.fPeriodSize (example_params 1500 2 2 1024))
                div fSubPeriodSize (example_layout 1500 1024 128 512 (replicate 2 NullPtr))) < 2 ^ 32
      \<and> JackOptimizedPortList_GetNumPackets log2_trunc (example_layout 1500 1024 128 512 [ConnectedMark, NullPtr])
        = Inr (4, (example_layout 1500 1024 128 512 [ConnectedMark, NullPtr])
                    \<lparr>fSubPeriodSize := 256, fSubPeriodBytesSize := 1028\<rparr>))
   \<and> GetCycleSize (example_layout 1500 1024 128 512 (replicate 2 NullPtr))
        = unat (fMtu (example_params 1500 2 2 1024))
           * (unat (session_params.fPeriodSize (example_params 1500 2 2 1024))
                div fSubPeriodSize (example_layout 1500 1024 128 512 (replicate 2 NullPtr)))
   \<and> GetCycleDuration (example_layout 1500 1024 128 512 (replicate 2 NullPtr))
        = FloatDiv (fSubPeriodSize (example_layout 1500 1024 128 512 (replicate 2 NullPtr)))
            (unat (fSampleRate (example_params 1500 2 2 1024)))
   \<and> GetCycleSize ((example_layout 1500 1024 128 512 [ConnectedMark, NullPtr])
                    \<lparr>fSubPeriodSize := 256, fSubPeriodBytesSize := 1028\<rparr>)
        = GetCycleSize (example_layout 1500 1024 128 512 [ConnectedMark, NullPtr])
   \<and> GetCycleDuration ((example_layout 1500 1024 128 512 [ConnectedMark, NullPtr])
                    \<lparr>fSubPeriodSize := 256, fSubPeriodBytesSize := 1028\<rparr>)
        = GetCycleDuration (example_layout 1500 1024 128 512 [ConnectedMark, NullPtr])"
proof -
  have h1: "JackPortList_ctor log2_trunc (example_params 1500 2 2 1024) 2
        = Inr (example_layout 1500 1024 128 512 (replicate 2 NullPtr))"
    by (simp add: layout_eval exact_eval)
  have h2: "unat (fMtu (example_params 1500 2 2 1024))
           * (unat (session_params.fPeriodSize (example_params 1500 2 2 1024))
                div fSubPeriodSize (example_layout 1500 1024 128 512 (replicate 2 NullPtr))) < 2 ^ 32"
    by (simp add: example_params_def example_layout_def)
  have h3: "JackOptimizedPortList_GetNumPackets log2_trunc (example_layout 1500 1024 128 512 [ConnectedMark, NullPtr])
        = Inr (4, (example_layout 1500 1024 128 512 [ConnectedMark, NullPtr])
                    \<lparr>fSubPeriodSize := 256, fSubPeriodBytesSize := 1028\<rparr>)"
    by (simp add: layout_eval exact_eval)
  note t = cycle_size_and_duration_set_once [where lg = log2_trunc and params = "example_params 1500 2 2 1024"
      and nports = 2 and pli = "example_layout 1500 1024 128 512 (replicate 2 NullPtr)"
      and pl = "example_layout 1500 1024 128 512 [ConnectedMark, NullPtr]" and c = 4
      and pl' = "(example_layout 1500 1024 128 512 [ConnectedMark, NullPtr])
                    \<lparr>fSubPeriodSize := 256, fSubPeriodBytesSize := 1028\<rparr>"]
  have h0: "float_log2_accurate log2_trunc" by (rule float_log2_accurate_exact)
  from t h0 h1 h2 h3 show ?thesis by blast
qed

section \<open>Properties of the receive operations\<close>

lemma mem_write_length: "mem_write buf off bs = Inr buf' \<Longrightarrow> length buf' = length buf"
  by (auto simp: mem_write_def split: if_splits)









lemmas render_eval = JackPortList_RenderFromNetwork_def JackOptimizedPortList_RenderFromNetwork_def
  JackPortList_RenderToJackPorts_def
  port_from_net_def mem_read_def mem_write_def fNPorts_def seq_pl_def seq_net_def
  example_layout_def to_uint32_def to_int32_def to_size_t_def SAMPLE_SIZE_def NET_PACKET_ERROR_def
  sub_period_def powf2_int_def Let_def upt_rec SwapFloat_def








text \<open>
  Claim C8 on the code. \<^verbatim>\<open>RenderToJackPorts\<close> of the little-endian build and of
  \<^verbatim>\<open>NetFloatAudioBuffer1\<close> set the counter to \<open>-1\<close>, and sub-cycle 0 is then received with
  status 0. In the big-endian build the body is empty: the counter keeps the last sub-cycle
  of the cycle before, here 7, and the big-endian \<^verbatim>\<open>RenderFromNetwork\<close> answers sub-cycle 0
  of the next cycle with \<^verbatim>\<open>NET_PACKET_ERROR\<close>.
\<close>

theorem render_to_jack_ports_counter:
  "fLastSubCycle (JackPortList_RenderToJackPorts LittleEndian pl) = - 1
   \<and> NetAudioBuffer.fLastSubCycle (NetFloatAudioBuffer1_RenderToJackPorts b) = - 1
   \<and> map_sum id fst (JackPortList_RenderFromNetwork LittleEndian
            (JackPortList_RenderToJackPorts LittleEndian (seq_pl (replicate 32 0) (replicate 32 0) 7))
            seq_net 0 0 0 2) = Inr 0
   \<and> fLastSubCycle (JackPortList_RenderToJackPorts BigEndian
            (seq_pl (replicate 32 0) (replicate 32 0) 7)) = 7
   \<and> map_sum id fst (JackPortList_RenderFromNetwork BigEndian
            (JackPortList_RenderToJackPorts BigEndian (seq_pl (replicate 32 0) (replicate 32 0) 7))
            seq_net 0 0 0 2) = Inr NET_PACKET_ERROR"
proof (intro conjI)
  show "fLastSubCycle (JackPortList_RenderToJackPorts LittleEndian pl) = - 1"
    by (simp add: JackPortList_RenderToJackPorts_def)
  show "NetAudioBuffer.fLastSubCycle (NetFloatAudioBuffer1_RenderToJackPorts b) = - 1"
    by (simp add: NetFloatAudioBuffer1_RenderToJackPorts_def)
  show "map_sum id fst (JackPortList_RenderFromNetwork LittleEndian
            (JackPortList_RenderToJackPorts LittleEndian (seq_pl (replicate 32 0) (replicate 32 0) 7))
            seq_net 0 0 0 2) = Inr 0"
    by (simp add: render_eval)
  show "fLastSubCycle (JackPortList_RenderToJackPorts BigEndian
            (seq_pl (replicate 32 0) (replicate 32 0) 7)) = 7"
    by (simp add: JackPortList_RenderToJackPorts_def seq_pl_def)
  show "map_sum id fst (JackPortList_RenderFromNetwork BigEndian
            (JackPortList_RenderToJackPorts BigEndian (seq_pl (replicate 32 0) (replicate 32 0) 7))
            seq_net 0 0 0 2) = Inr NET_PACKET_ERROR"
    by (simp add: render_eval SwapFloat_def)
qed

section \<open>The optimized layout with a sparse set of ports\<close>

lemmas sparse_eval = JackOptimizedPortList_RenderFromNetwork_def
  JackOptimizedPortList_RenderToNetwork_def JackOptimizedPortList_GetNumPackets_def
  active_ports_count_def uint32_bytes_def
  mem_read_def mem_write_def fNPorts_def sparse_ports_def sparse_sender_def sparse_packet_def
  sparse_receiver_def
  example_layout_def to_uint32_def to_int32_def to_size_t_def SAMPLE_SIZE_def HEADER_SIZE_def
  NET_PACKET_ERROR_def sub_period_def powf2_int_def Let_def upt_rec

text \<open>
  Claim C3 on the code, for eight ports of which 1, 5 and 7 are active on both sides, and
  for every accurate logarithm. The sender sizes the cycle as one packet and renders three
  slots, numbered 1, 5 and 7. The receiver tests \<^verbatim>\<open>fPortBuffer[port_index]\<close>, where
  \<^verbatim>\<open>port_index\<close> is the number of the slot in the packet (0, 1, 2), and copies to
  \<^verbatim>\<open>fPortBuffer[active_port]\<close>: slots 0 and 2 are skipped because ports 0 and 2 have no
  buffer, slot 1 is copied to port 5, and ports 1 and 7 keep the zeros of the clean-up.
\<close>

theorem optimized_round_trip_sparse_ports:
  "float_log2_accurate lg
   \<longrightarrow> JackOptimizedPortList_GetNumPackets lg (sparse_sender 8) = Inr (1, sparse_sender 12)
     \<and> JackOptimizedPortList_RenderToNetwork LittleEndian (sparse_sender 12) (replicate 36 0) 0
       = Inr (36, 3, sparse_packet)
     \<and> JackOptimizedPortList_RenderFromNetwork LittleEndian lg
         (sparse_receiver (replicate 8 0) (replicate 8 0) (replicate 8 0)) sparse_packet 0 0 36 3
       = Inr (0, (sparse_receiver (replicate 8 0) [11, 12, 13, 14, 15, 16, 17, 18] (replicate 8 0))
                   \<lparr>fLastSubCycle := 0\<rparr>)"
proof (intro conjI impI)
  assume acc: "float_log2_accurate lg"
  show "JackOptimizedPortList_GetNumPackets lg (sparse_sender 8) = Inr (1, sparse_sender 12)"
    by (simp add: sparse_eval float_log2_accurate_values [OF acc])
  show "JackOptimizedPortList_RenderToNetwork LittleEndian (sparse_sender 12) (replicate 36 0) 0
       = Inr (36, 3, sparse_packet)"
    by (simp add: sparse_eval)
  show "JackOptimizedPortList_RenderFromNetwork LittleEndian lg
         (sparse_receiver (replicate 8 0) (replicate 8 0) (replicate 8 0)) sparse_packet 0 0 36 3
       = Inr (0, (sparse_receiver (replicate 8 0) [11, 12, 13, 14, 15, 16, 17, 18] (replicate 8 0))
                   \<lparr>fLastSubCycle := 0\<rparr>)"
    by (simp add: sparse_eval float_log2_accurate_values [OF acc])
qed

theorem optimized_round_trip_sparse_ports_witness:
  "float_log2_accurate log2_trunc
   \<and> JackOptimizedPortList_GetNumPackets log2_trunc (sparse_sender 8) = Inr (1, sparse_sender 12)
   \<and> JackOptimizedPortList_RenderToNetwork LittleEndian (sparse_sender 12) (replicate 36 0) 0
       = Inr (36, 3, sparse_packet)
   \<and> JackOptimizedPortList_RenderFromNetwork LittleEndian log2_trunc
         (sparse_receiver (replicate 8 0) (replicate 8 0) (replicate 8 0)) sparse_packet 0 0 36 3
       = Inr (0, (sparse_receiver (replicate 8 0) [11, 12, 13, 14, 15, 16, 17, 18] (replicate 8 0))
                   \<lparr>fLastSubCycle := 0\<rparr>)"
  using optimized_round_trip_sparse_ports [of log2_trunc] float_log2_accurate_exact by blast

section \<open>Properties of the list of active ports\<close>

lemma active_indices_simps:
  "active_indices ports [] = []"
  "active_indices ports (i # rest) =
     (if ports ! i \<noteq> NullPtr then i # active_indices ports rest else active_indices ports rest)"
  by (simp_all add: active_indices_def)

lemma active_indices_count:
  "length (active_indices ports [0..<length ports]) = active_ports_count ports"
proof -
  have "filter (\<lambda>p. p \<noteq> NullPtr) (map ((!) ports) [0..<length ports])
          = map ((!) ports) (filter ((\<lambda>p. p \<noteq> NullPtr) \<circ> (!) ports) [0..<length ports])"
    by (rule filter_map)
  then have "length (filter (\<lambda>p. p \<noteq> NullPtr) ports)
          = length (filter ((\<lambda>p. p \<noteq> NullPtr) \<circ> (!) ports) [0..<length ports])"
    by (simp add: map_nth)
  then show ?thesis by (simp add: active_indices_def active_ports_count_def comp_def)
qed

lemma active_to_network_loop_ok:
  "n0 + length (active_indices ports idxs) < 512 \<Longrightarrow>
   n0 + length (active_indices ports idxs) \<le> length net \<Longrightarrow>
   active_to_network_loop idxs ports net n0 =
     Inr (take n0 net @ map (\<lambda>i. to_int16 (int i)) (active_indices ports idxs)
            @ drop (n0 + length (active_indices ports idxs)) net,
          n0 + length (active_indices ports idxs))"
proof (induction idxs arbitrary: net n0)
  case Nil
  then show ?case by (simp add: active_indices_simps)
next
  case (Cons i rest)
  show ?case
  proof (cases "ports ! i \<noteq> NullPtr")
    case False
    with Cons show ?thesis by (simp add: active_indices_simps)
  next
    case True
    let ?k = "length (active_indices ports rest)"
    let ?net = "net[n0 := to_int16 (int i)]"
    from Cons.prems True have b: "Suc n0 + ?k < 512" "Suc n0 + ?k \<le> length ?net"
      by (simp_all add: active_indices_simps)
    have n0: "n0 < length net" using b(2) by simp
    have t: "take (Suc n0) ?net = take n0 net @ [to_int16 (int i)]"
      using n0 by (simp add: take_Suc_conv_app_nth)
    have d: "drop (Suc n0 + ?k) ?net = drop (Suc n0 + ?k) net"
      by simp
    from Cons.IH [OF b] have
      "active_to_network_loop rest ports ?net (Suc n0) =
         Inr (take (Suc n0) ?net @ map (\<lambda>i. to_int16 (int i)) (active_indices ports rest)
                @ drop (Suc n0 + ?k) ?net, Suc n0 + ?k)" .
    then show ?thesis using True n0 b(1) unfolding t d
      by (simp add: active_indices_simps)
  qed
qed

lemma active_to_network_loop_assert:
  "n0 < 512 \<Longrightarrow> 512 \<le> n0 + length (active_indices ports idxs) \<Longrightarrow> 512 \<le> length net \<Longrightarrow>
   active_to_network_loop idxs ports net n0 = Inl AssertFailed"
proof (induction idxs arbitrary: net n0)
  case Nil
  then show ?case by (simp add: active_indices_simps)
next
  case (Cons i rest)
  show ?case
  proof (cases "ports ! i \<noteq> NullPtr")
    case False
    with Cons show ?thesis by (simp add: active_indices_simps)
  next
    case True
    show ?thesis
    proof (cases "n0 + 1 < 512")
      case False
      then show ?thesis using True Cons.prems by simp
    next
      case less: True
      have "active_to_network_loop rest ports (net[n0 := to_int16 (int i)]) (Suc n0) = Inl AssertFailed"
        by (rule Cons.IH) (use less Cons.prems True in \<open>simp_all add: active_indices_simps\<close>)
      then show ?thesis using True less Cons.prems by simp
    qed
  qed
qed

lemma active_to_network_loop_returns:
  "active_to_network_loop idxs ports net n0 = Inr (net', n) \<Longrightarrow>
     n = n0 + length (active_indices ports idxs) \<and> (n0 < 512 \<longrightarrow> n < 512)"
proof (induction idxs arbitrary: net n0)
  case Nil
  then show ?case by (simp add: active_indices_simps)
next
  case (Cons i rest)
  show ?case
  proof (cases "ports ! i \<noteq> NullPtr")
    case False
    with Cons show ?thesis by (simp add: active_indices_simps)
  next
    case True
    with Cons.prems have r: "active_to_network_loop rest ports (net[n0 := to_int16 (int i)]) (Suc n0)
        = Inr (net', n)" and l: "Suc n0 < 512"
      by (simp_all split: if_splits)
    from Cons.IH [OF r] l True show ?thesis by (simp add: active_indices_simps)
  qed
qed


lemma active_from_network_loop_char:
  "\<forall>k \<in> set idxs. k < length net \<Longrightarrow>
   \<exists>ports'. active_from_network_loop idxs net ports errs =
       Inr (ports', errs @ filter (\<lambda>a. \<not> (0 \<le> a \<and> a < int (length ports))) (map ((!) net) idxs))
     \<and> length ports' = length ports
     \<and> (\<forall>i < length ports. ports' ! i =
           (if int i \<in> set (map ((!) net) idxs) then ConnectedMark else ports ! i))"
proof (induction idxs arbitrary: ports errs)
  case Nil
  then show ?case by simp
next
  case (Cons k rest)
  from Cons.prems have k: "k < length net" and r: "\<forall>j \<in> set rest. j < length net" by simp_all
  let ?a = "net ! k"
  show ?case
  proof (cases "0 \<le> ?a \<and> ?a < int (length ports)")
    case True
    let ?ports = "ports[nat ?a := ConnectedMark]"
    from Cons.IH [OF r, of ?ports errs] obtain ports' where
      p: "active_from_network_loop rest net ?ports errs =
            Inr (ports', errs @ filter (\<lambda>a. \<not> (0 \<le> a \<and> a < int (length ?ports))) (map ((!) net) rest))"
      and l: "length ports' = length ?ports"
      and c: "\<forall>i < length ?ports. ports' ! i =
           (if int i \<in> set (map ((!) net) rest) then ConnectedMark else ?ports ! i)"
      by blast
    have c': "\<forall>i < length ports. ports' ! i =
           (if int i \<in> set (map ((!) net) (k # rest)) then ConnectedMark else ports ! i)"
    proof (intro allI impI)
      fix i assume i: "i < length ports"
      show "ports' ! i = (if int i \<in> set (map ((!) net) (k # rest)) then ConnectedMark else ports ! i)"
      proof (cases "int i = ?a")
        case True
        then have "nat ?a = i" by simp
        then have "?ports ! i = ConnectedMark" using i by simp
        with c i True show ?thesis by simp
      next
        case False
        then have "nat ?a \<noteq> i" using \<open>0 \<le> ?a \<and> ?a < int (length ports)\<close> by auto
        then have "?ports ! i = ports ! i" by simp
        with c i False show ?thesis by simp
      qed
    qed
    have e1: "active_from_network_loop (k # rest) net ports errs
        = active_from_network_loop rest net ?ports errs"
      using k by (simp add: Let_def True)
    have e2: "filter (\<lambda>a. \<not> (0 \<le> a \<and> a < int (length ports))) (map ((!) net) (k # rest))
        = filter (\<lambda>a. \<not> (0 \<le> a \<and> a < int (length ?ports))) (map ((!) net) rest)"
      by (simp add: True)
    have l': "length ports' = length ports" using l by simp
    have p': "active_from_network_loop (k # rest) net ports errs =
       Inr (ports', errs @ filter (\<lambda>a. \<not> (0 \<le> a \<and> a < int (length ports))) (map ((!) net) (k # rest)))"
      unfolding e1 e2 by (rule p)
    from p' l' c' show ?thesis by blast
  next
    case False
    from Cons.IH [OF r, of ports "errs @ [?a]"] obtain ports' where
      p: "active_from_network_loop rest net ports (errs @ [?a]) =
            Inr (ports', (errs @ [?a]) @ filter (\<lambda>a. \<not> (0 \<le> a \<and> a < int (length ports))) (map ((!) net) rest))"
      and l': "length ports' = length ports"
      and c: "\<forall>i < length ports. ports' ! i =
           (if int i \<in> set (map ((!) net) rest) then ConnectedMark else ports ! i)"
      by blast
    have "\<forall>i < length ports. int i \<noteq> ?a" using False by auto
    with c have c': "\<forall>i < length ports. ports' ! i =
           (if int i \<in> set (map ((!) net) (k # rest)) then ConnectedMark else ports ! i)"
      by simp
    have e1: "active_from_network_loop (k # rest) net ports errs
        = active_from_network_loop rest net ports (errs @ [?a])"
      using k by (simp add: Let_def False)
    have e2: "errs @ filter (\<lambda>a. \<not> (0 \<le> a \<and> a < int (length ports))) (map ((!) net) (k # rest))
        = (errs @ [?a]) @ filter (\<lambda>a. \<not> (0 \<le> a \<and> a < int (length ports))) (map ((!) net) rest)"
      by (simp add: False)
    have p': "active_from_network_loop (k # rest) net ports errs =
       Inr (ports', errs @ filter (\<lambda>a. \<not> (0 \<le> a \<and> a < int (length ports))) (map ((!) net) (k # rest)))"
      unfolding e1 e2 by (rule p)
    from p' l' c' show ?thesis by blast
  qed
qed

lemma map_nth_upt_take: "n \<le> length xs \<Longrightarrow> map ((!) xs) [0..<n] = take n xs"
  by (rule nth_equalityI) simp_all

lemma ActivePortsFromNetwork_char:
  assumes "port_num \<le> length net"
  shows "\<exists>pl' errs. JackOptimizedPortList_ActivePortsFromNetwork pl net port_num = Inr (pl', errs)
     \<and> errs = filter (\<lambda>a. \<not> (0 \<le> a \<and> a < int (fNPorts pl))) (take port_num net)
     \<and> fNPorts pl' = fNPorts pl
     \<and> (\<forall>i < fNPorts pl. fPortBuffer pl' ! i =
           (if int i \<in> set (take port_num net) then ConnectedMark else NullPtr))
     \<and> pl' = pl\<lparr>fPortBuffer := fPortBuffer pl'\<rparr>"
proof -
  have "\<forall>k \<in> set [0..<port_num]. k < length net" using assms by simp
  from active_from_network_loop_char [OF this, of "replicate (fNPorts pl) NullPtr" "[]"]
  obtain ports' where
    p: "active_from_network_loop [0..<port_num] net (replicate (fNPorts pl) NullPtr) [] =
       Inr (ports', filter (\<lambda>a. \<not> (0 \<le> a \<and> a < int (fNPorts pl))) (take port_num net))"
    and l: "length ports' = fNPorts pl"
    and c: "\<forall>i < fNPorts pl. ports' ! i =
           (if int i \<in> set (take port_num net) then ConnectedMark else NullPtr)"
    by (auto simp: map_nth_upt_take [OF assms])
  show ?thesis
    using p l c by (simp add: JackOptimizedPortList_ActivePortsFromNetwork_def fNPorts_def)
qed


lemma to_int16_id: "0 \<le> x \<Longrightarrow> x < 2 ^ 15 \<Longrightarrow> to_int16 x = x"
  by (simp add: to_int16_def)

lemma ActivePortsToNetwork_ok:
  assumes "active_ports_count (fPortBuffer pl) < 512"
    and "active_ports_count (fPortBuffer pl) \<le> length net"
  shows "JackOptimizedPortList_ActivePortsToNetwork pl net =
     Inr (map (\<lambda>i. to_int16 (int i)) (active_indices (fPortBuffer pl) [0..<fNPorts pl])
            @ drop (active_ports_count (fPortBuffer pl)) net,
          active_ports_count (fPortBuffer pl))"
  using active_to_network_loop_ok [of 0 "fPortBuffer pl" "[0..<fNPorts pl]" net] assms
  by (simp add: JackOptimizedPortList_ActivePortsToNetwork_def fNPorts_def active_indices_count)

lemma ActivePortsToNetwork_assert:
  assumes "512 \<le> active_ports_count (fPortBuffer pl)" and "512 \<le> length net"
  shows "JackOptimizedPortList_ActivePortsToNetwork pl net = Inl AssertFailed"
  using active_to_network_loop_assert [of 0 "fPortBuffer pl" "[0..<fNPorts pl]" net] assms
  by (simp add: JackOptimizedPortList_ActivePortsToNetwork_def fNPorts_def active_indices_count)

lemma ActivePortsToNetwork_returns:
  assumes "JackOptimizedPortList_ActivePortsToNetwork pl net = Inr (net', n)"
  shows "n = active_ports_count (fPortBuffer pl)" "n < 512"
  using active_to_network_loop_returns [of "[0..<fNPorts pl]" "fPortBuffer pl" net 0 net' n] assms
  by (simp_all add: JackOptimizedPortList_ActivePortsToNetwork_def fNPorts_def active_indices_count)

lemma active_round_trip:
  assumes c: "active_ports_count (fPortBuffer sender) < 512"
    and cap: "active_ports_count (fPortBuffer sender) \<le> length net"
    and N: "fNPorts sender \<le> 32768"
    and same: "fNPorts receiver = fNPorts sender"
  shows "\<exists>net' pl'. JackOptimizedPortList_ActivePortsToNetwork sender net
              = Inr (net', active_ports_count (fPortBuffer sender))
          \<and> JackOptimizedPortList_ActivePortsFromNetwork receiver net'
                (active_ports_count (fPortBuffer sender)) = Inr (pl', [])
          \<and> fNPorts pl' = fNPorts sender
          \<and> (\<forall>i < fNPorts sender.
                (fPortBuffer pl' ! i \<noteq> NullPtr) = (fPortBuffer sender ! i \<noteq> NullPtr))"
proof -
  define act where "act = active_indices (fPortBuffer sender) [0..<fNPorts sender]"
  define k where "k = active_ports_count (fPortBuffer sender)"
  define net' where "net' = map (\<lambda>i. to_int16 (int i)) act @ drop k net"
  have lk: "length act = k"
    unfolding act_def k_def fNPorts_def by (rule active_indices_count)
  have mem: "\<And>i. i \<in> set act \<longleftrightarrow> i < fNPorts sender \<and> fPortBuffer sender ! i \<noteq> NullPtr"
    by (auto simp: act_def active_indices_def)
  have enc: "JackOptimizedPortList_ActivePortsToNetwork sender net = Inr (net', k)"
    unfolding net'_def k_def act_def by (rule ActivePortsToNetwork_ok [OF c cap])
  have "map (\<lambda>i. to_int16 (int i)) act = map int act"
  proof (rule map_cong [OF refl])
    fix i assume "i \<in> set act"
    then have "i < 32768" using mem N by auto
    then show "to_int16 (int i) = int i" by (intro to_int16_id) simp_all
  qed
  then have tk: "take k net' = map int act" by (simp add: net'_def lk)
  have kl: "k \<le> length net'" by (simp add: net'_def lk)
  from ActivePortsFromNetwork_char [OF kl, of receiver] obtain pl' errs where
    dec: "JackOptimizedPortList_ActivePortsFromNetwork receiver net' k = Inr (pl', errs)"
    and errs: "errs = filter (\<lambda>a. \<not> (0 \<le> a \<and> a < int (fNPorts receiver))) (take k net')"
    and n: "fNPorts pl' = fNPorts receiver"
    and ch: "\<forall>i < fNPorts receiver. fPortBuffer pl' ! i =
           (if int i \<in> set (take k net') then ConnectedMark else NullPtr)"
    by blast
  have "errs = []"
    unfolding errs tk same by (auto simp: filter_empty_conv mem)
  moreover have "\<forall>i < fNPorts sender.
                (fPortBuffer pl' ! i \<noteq> NullPtr) = (fPortBuffer sender ! i \<noteq> NullPtr)"
    using ch unfolding tk same by (auto simp: mem)
  ultimately show ?thesis using enc dec n same unfolding k_def by auto
qed

lemmas active_eval = JackOptimizedPortList_ActivePortsToNetwork_def
  JackOptimizedPortList_ActivePortsFromNetwork_def fNPorts_def example_layout_def
  active_ports_count_def to_int16_def upt_rec

text \<open>
  Claim C9. A call of \<^verbatim>\<open>ActivePortsToNetwork\<close> that returns leaves in \<^verbatim>\<open>port_num\<close> the number
  of ports with a non-null pointer, and that number is below 512. With fewer than 512 such
  ports and room for them in the buffer, the call returns; with 512 or more, and room for
  512 entries, it stops at the \<^verbatim>\<open>assert\<close>.
\<close>

theorem active_ports_to_network_assert_limit:
  "(JackOptimizedPortList_ActivePortsToNetwork pl net = Inr (net', n)
    \<longrightarrow> n = active_ports_count (fPortBuffer pl) \<and> n < 512)
   \<and> (active_ports_count (fPortBuffer pla) < 512
        \<and> active_ports_count (fPortBuffer pla) \<le> length neta
    \<longrightarrow> (\<exists>out. JackOptimizedPortList_ActivePortsToNetwork pla neta
                  = Inr (out, active_ports_count (fPortBuffer pla))))
   \<and> (512 \<le> active_ports_count (fPortBuffer plb) \<and> 512 \<le> length netb
    \<longrightarrow> JackOptimizedPortList_ActivePortsToNetwork plb netb = Inl AssertFailed)"
proof (intro conjI impI)
  assume a: "JackOptimizedPortList_ActivePortsToNetwork pl net = Inr (net', n)"
  show "n = active_ports_count (fPortBuffer pl)" by (rule ActivePortsToNetwork_returns(1) [OF a])
  show "n < 512" by (rule ActivePortsToNetwork_returns(2) [OF a])
next
  assume "active_ports_count (fPortBuffer pla) < 512
        \<and> active_ports_count (fPortBuffer pla) \<le> length neta"
  then show "\<exists>out. JackOptimizedPortList_ActivePortsToNetwork pla neta
                  = Inr (out, active_ports_count (fPortBuffer pla))"
    using ActivePortsToNetwork_ok [of pla neta] by blast
next
  assume "512 \<le> active_ports_count (fPortBuffer plb) \<and> 512 \<le> length netb"
  then show "JackOptimizedPortList_ActivePortsToNetwork plb netb = Inl AssertFailed"
    using ActivePortsToNetwork_assert [of plb netb] by blast
qed

theorem active_ports_to_network_assert_limit_witness:
  "(JackOptimizedPortList_ActivePortsToNetwork (example_layout 1500 1024 128 516 [NullPtr, ConnectedMark, Buffer [], NullPtr]) [7, 7, 7] = Inr ([1, 2, 7], 2))
   \<and> (active_ports_count (fPortBuffer (example_layout 1500 1024 128 516 [NullPtr, ConnectedMark, Buffer [], NullPtr])) < 512
        \<and> active_ports_count (fPortBuffer (example_layout 1500 1024 128 516 [NullPtr, ConnectedMark, Buffer [], NullPtr])) \<le> length [7, 7, 7 :: int])
   \<and> (512 \<le> active_ports_count (fPortBuffer (example_layout 1500 1024 128 516 (replicate 512 ConnectedMark)))
        \<and> 512 \<le> length (replicate 512 (0 :: int)))
   \<and> (2 :: nat) = active_ports_count (fPortBuffer (example_layout 1500 1024 128 516 [NullPtr, ConnectedMark, Buffer [], NullPtr])) \<and> (2 :: nat) < 512
   \<and> (\<exists>out. JackOptimizedPortList_ActivePortsToNetwork (example_layout 1500 1024 128 516 [NullPtr, ConnectedMark, Buffer [], NullPtr]) [7, 7, 7]
                  = Inr (out, active_ports_count (fPortBuffer (example_layout 1500 1024 128 516 [NullPtr, ConnectedMark, Buffer [], NullPtr]))))
   \<and> JackOptimizedPortList_ActivePortsToNetwork (example_layout 1500 1024 128 516 (replicate 512 ConnectedMark)) (replicate 512 0) = Inl AssertFailed"
proof -
  have h1: "JackOptimizedPortList_ActivePortsToNetwork (example_layout 1500 1024 128 516 [NullPtr, ConnectedMark, Buffer [], NullPtr]) [7, 7, 7] = Inr ([1, 2, 7], 2)"
    by (simp add: active_eval)
  have h2: "active_ports_count (fPortBuffer (example_layout 1500 1024 128 516 [NullPtr, ConnectedMark, Buffer [], NullPtr])) < 512
        \<and> active_ports_count (fPortBuffer (example_layout 1500 1024 128 516 [NullPtr, ConnectedMark, Buffer [], NullPtr])) \<le> length [7, 7, 7 :: int]"
    by (simp add: active_eval)
  have h3: "512 \<le> active_ports_count (fPortBuffer (example_layout 1500 1024 128 516 (replicate 512 ConnectedMark)))
        \<and> 512 \<le> length (replicate 512 (0 :: int))"
    by (simp add: example_layout_def active_ports_count_def)
  note t = active_ports_to_network_assert_limit [where pl = "(example_layout 1500 1024 128 516 [NullPtr, ConnectedMark, Buffer [], NullPtr])"
      and net = "[7, 7, 7]" and net' = "[1, 2, 7]" and n = 2
      and pla = "(example_layout 1500 1024 128 516 [NullPtr, ConnectedMark, Buffer [], NullPtr])" and neta = "[7, 7, 7]"
      and plb = "(example_layout 1500 1024 128 516 (replicate 512 ConnectedMark))" and netb = "replicate 512 0"]
  from t h1 h2 h3 show ?thesis by blast
qed

text \<open>
  Claim C6. When the buffer holds the \<^verbatim>\<open>port_num\<close> entries that are read,
  \<^verbatim>\<open>ActivePortsFromNetwork\<close> returns. Every entry outside \<open>[0, fNPorts)\<close> is passed to
  \<^verbatim>\<open>jack_error\<close>, in order, and changes nothing else; a port is left with the marker
  exactly when its index is among the entries, and with \<^verbatim>\<open>NULL\<close> otherwise; no other
  field changes. With four ports and the entries 1, 9, 2, -3, the entries 9 and -3 are
  reported and the ports 1 and 2, before and after the bad entries, are marked.
\<close>

theorem active_ports_from_network_range_check:
  "(port_num \<le> length net
    \<longrightarrow> (\<exists>pl' errs. JackOptimizedPortList_ActivePortsFromNetwork pl net port_num = Inr (pl', errs)
          \<and> errs = filter (\<lambda>a. \<not> (0 \<le> a \<and> a < int (fNPorts pl))) (take port_num net)
          \<and> fNPorts pl' = fNPorts pl
          \<and> (\<forall>i < fNPorts pl. fPortBuffer pl' ! i =
                 (if int i \<in> set (take port_num net) then ConnectedMark else NullPtr))
          \<and> pl' = pl\<lparr>fPortBuffer := fPortBuffer pl'\<rparr>))
   \<and> JackOptimizedPortList_ActivePortsFromNetwork
         (example_layout 1500 1024 128 516 [NullPtr, NullPtr, NullPtr, Buffer []]) [1, 9, 2, - 3, 0] 4
       = Inr (example_layout 1500 1024 128 516 [NullPtr, ConnectedMark, ConnectedMark, NullPtr], [9, - 3])"
proof (intro conjI impI)
  assume "port_num \<le> length net"
  then show "\<exists>pl' errs. JackOptimizedPortList_ActivePortsFromNetwork pl net port_num = Inr (pl', errs)
          \<and> errs = filter (\<lambda>a. \<not> (0 \<le> a \<and> a < int (fNPorts pl))) (take port_num net)
          \<and> fNPorts pl' = fNPorts pl
          \<and> (\<forall>i < fNPorts pl. fPortBuffer pl' ! i =
                 (if int i \<in> set (take port_num net) then ConnectedMark else NullPtr))
          \<and> pl' = pl\<lparr>fPortBuffer := fPortBuffer pl'\<rparr>"
    by (rule ActivePortsFromNetwork_char)
next
  show "JackOptimizedPortList_ActivePortsFromNetwork
         (example_layout 1500 1024 128 516 [NullPtr, NullPtr, NullPtr, Buffer []]) [1, 9, 2, - 3, 0] 4
       = Inr (example_layout 1500 1024 128 516 [NullPtr, ConnectedMark, ConnectedMark, NullPtr], [9, - 3])"
    by (simp add: active_eval)
qed

theorem active_ports_from_network_range_check_witness:
  "(4 :: nat) \<le> length [1, 9, 2, - 3, 0 :: int]
   \<and> (\<exists>pl' errs. JackOptimizedPortList_ActivePortsFromNetwork
             (example_layout 1500 1024 128 516 [NullPtr, NullPtr, NullPtr, Buffer []]) [1, 9, 2, - 3, 0] 4 = Inr (pl', errs)
          \<and> errs = filter (\<lambda>a. \<not> (0 \<le> a
                   \<and> a < int (fNPorts (example_layout 1500 1024 128 516 [NullPtr, NullPtr, NullPtr, Buffer []]))))
                   (take 4 [1, 9, 2, - 3, 0])
          \<and> fNPorts pl' = fNPorts (example_layout 1500 1024 128 516 [NullPtr, NullPtr, NullPtr, Buffer []])
          \<and> (\<forall>i < fNPorts (example_layout 1500 1024 128 516 [NullPtr, NullPtr, NullPtr, Buffer []]). fPortBuffer pl' ! i =
                 (if int i \<in> set (take 4 [1, 9, 2, - 3, 0]) then ConnectedMark else NullPtr))
          \<and> pl' = (example_layout 1500 1024 128 516 [NullPtr, NullPtr, NullPtr, Buffer []])\<lparr>fPortBuffer := fPortBuffer pl'\<rparr>)"
proof -
  have h: "(4 :: nat) \<le> length [1, 9, 2, - 3, 0 :: int]" by simp
  note t = active_ports_from_network_range_check [where port_num = 4
      and net = "[1, 9, 2, - 3, 0]" and pl = "example_layout 1500 1024 128 516 [NullPtr, NullPtr, NullPtr, Buffer []]"]
  from t h show ?thesis by blast
qed

text \<open>
  Claim C5, as the code has it. When fewer than 512 ports are active on the sender, the
  buffer has room for them, there are at most 32768 ports, and the receiver has as many
  ports as the sender, \<^verbatim>\<open>ActivePortsToNetwork\<close> returns the number of active ports,
  \<^verbatim>\<open>ActivePortsFromNetwork\<close> on the buffer it filled reports no error, and afterwards a
  port of the receiver is non-null exactly when the port of the sender is.
\<close>

theorem active_ports_round_trip:
  "active_ports_count (fPortBuffer sender) < 512
     \<and> active_ports_count (fPortBuffer sender) \<le> length net
     \<and> fNPorts sender \<le> 32768 \<and> fNPorts receiver = fNPorts sender
   \<longrightarrow> (\<exists>net' pl'. JackOptimizedPortList_ActivePortsToNetwork sender net
              = Inr (net', active_ports_count (fPortBuffer sender))
          \<and> JackOptimizedPortList_ActivePortsFromNetwork receiver net'
                (active_ports_count (fPortBuffer sender)) = Inr (pl', [])
          \<and> fNPorts pl' = fNPorts sender
          \<and> (\<forall>i < fNPorts sender.
                (fPortBuffer pl' ! i \<noteq> NullPtr) = (fPortBuffer sender ! i \<noteq> NullPtr)))"
  using active_round_trip [of sender net receiver] by blast

theorem active_ports_round_trip_witness:
  "(active_ports_count (fPortBuffer (example_layout 1500 1024 128 516 [NullPtr, ConnectedMark, Buffer [], NullPtr])) < 512
     \<and> active_ports_count (fPortBuffer (example_layout 1500 1024 128 516 [NullPtr, ConnectedMark, Buffer [], NullPtr])) \<le> length [7, 7, 7 :: int]
     \<and> fNPorts (example_layout 1500 1024 128 516 [NullPtr, ConnectedMark, Buffer [], NullPtr]) \<le> 32768
     \<and> fNPorts (example_layout 1500 1024 128 516 [Buffer [], NullPtr, NullPtr, NullPtr]) = fNPorts (example_layout 1500 1024 128 516 [NullPtr, ConnectedMark, Buffer [], NullPtr]))
   \<and> (\<exists>net' pl'. JackOptimizedPortList_ActivePortsToNetwork (example_layout 1500 1024 128 516 [NullPtr, ConnectedMark, Buffer [], NullPtr]) [7, 7, 7]
              = Inr (net', active_ports_count (fPortBuffer (example_layout 1500 1024 128 516 [NullPtr, ConnectedMark, Buffer [], NullPtr])))
          \<and> JackOptimizedPortList_ActivePortsFromNetwork (example_layout 1500 1024 128 516 [Buffer [], NullPtr, NullPtr, NullPtr]) net'
                (active_ports_count (fPortBuffer (example_layout 1500 1024 128 516 [NullPtr, ConnectedMark, Buffer [], NullPtr]))) = Inr (pl', [])
          \<and> fNPorts pl' = fNPorts (example_layout 1500 1024 128 516 [NullPtr, ConnectedMark, Buffer [], NullPtr])
          \<and> (\<forall>i < fNPorts (example_layout 1500 1024 128 516 [NullPtr, ConnectedMark, Buffer [], NullPtr]).
                (fPortBuffer pl' ! i \<noteq> NullPtr) = (fPortBuffer (example_layout 1500 1024 128 516 [NullPtr, ConnectedMark, Buffer [], NullPtr]) ! i \<noteq> NullPtr)))"
proof -
  have h: "active_ports_count (fPortBuffer (example_layout 1500 1024 128 516 [NullPtr, ConnectedMark, Buffer [], NullPtr])) < 512
     \<and> active_ports_count (fPortBuffer (example_layout 1500 1024 128 516 [NullPtr, ConnectedMark, Buffer [], NullPtr])) \<le> length [7, 7, 7 :: int]
     \<and> fNPorts (example_layout 1500 1024 128 516 [NullPtr, ConnectedMark, Buffer [], NullPtr]) \<le> 32768
     \<and> fNPorts (example_layout 1500 1024 128 516 [Buffer [], NullPtr, NullPtr, NullPtr]) = fNPorts (example_layout 1500 1024 128 516 [NullPtr, ConnectedMark, Buffer [], NullPtr])"
    by (simp add: active_eval)
  note t = active_ports_round_trip [where sender = "(example_layout 1500 1024 128 516 [NullPtr, ConnectedMark, Buffer [], NullPtr])" and net = "[7, 7, 7]"
      and receiver = "(example_layout 1500 1024 128 516 [Buffer [], NullPtr, NullPtr, NullPtr])"]
  from t h show ?thesis by blast
qed

text \<open>
  The claim as it is written covers every set of active ports. With 512 active ports the
  encoding stops at the \<^verbatim>\<open>assert\<close>. With 32769 ports of which only the last is active, the
  port number 32768 is stored in a \<^verbatim>\<open>short\<close> as \<open>-32768\<close>, and the receiver reports it and
  leaves every port inactive.
\<close>

theorem active_ports_round_trip_counterexample:
  "JackOptimizedPortList_ActivePortsToNetwork (example_layout 1500 1024 128 516 (replicate 512 ConnectedMark)) (replicate 512 0) = Inl AssertFailed
   \<and> JackOptimizedPortList_ActivePortsToNetwork
         (example_layout 1500 1024 128 516 (replicate 32768 NullPtr @ [ConnectedMark])) [0]
       = Inr ([- 32768], 1)
   \<and> JackOptimizedPortList_ActivePortsFromNetwork
         (example_layout 1500 1024 128 516 (replicate 32769 NullPtr)) [- 32768] 1
       = Inr (example_layout 1500 1024 128 516 (replicate 32769 NullPtr), [- 32768])"
proof (intro conjI)
  show "JackOptimizedPortList_ActivePortsToNetwork (example_layout 1500 1024 128 516 (replicate 512 ConnectedMark)) (replicate 512 0) = Inl AssertFailed"
    by (rule ActivePortsToNetwork_assert)
       (simp_all add: example_layout_def active_ports_count_def)
  have "[0..<32769] = [0..<32768] @ [32768::nat]"
    using upt_Suc_append [of 0 32768] by simp
  moreover have "active_indices (replicate 32768 NullPtr @ [ConnectedMark]) [0..<32768] = []"
    by (simp add: active_indices_def filter_empty_conv nth_append)
  ultimately have idx:
    "active_indices (replicate 32768 NullPtr @ [ConnectedMark]) [0..<32769] = [32768]"
    by (simp add: active_indices_def nth_append)
  have c: "active_ports_count (replicate 32768 NullPtr @ [ConnectedMark]) = 1"
    by (simp add: active_ports_count_def)
  have "JackOptimizedPortList_ActivePortsToNetwork
     (example_layout 1500 1024 128 516 (replicate 32768 NullPtr @ [ConnectedMark])) [0]
     = Inr (map (\<lambda>i. to_int16 (int i))
              (active_indices (replicate 32768 NullPtr @ [ConnectedMark]) [0..<32769]) @ drop 1 [0], 1)"
    using ActivePortsToNetwork_ok
      [of "example_layout 1500 1024 128 516 (replicate 32768 NullPtr @ [ConnectedMark])" "[0]"]
    by (simp add: example_layout_def c fNPorts_def)
  then show "JackOptimizedPortList_ActivePortsToNetwork
         (example_layout 1500 1024 128 516 (replicate 32768 NullPtr @ [ConnectedMark])) [0]
       = Inr ([- 32768], 1)"
    by (simp add: idx to_int16_def)
  show "JackOptimizedPortList_ActivePortsFromNetwork
         (example_layout 1500 1024 128 516 (replicate 32769 NullPtr)) [- 32768] 1
       = Inr (example_layout 1500 1024 128 516 (replicate 32769 NullPtr), [- 32768])"
    by (simp add: JackOptimizedPortList_ActivePortsFromNetwork_def fNPorts_def example_layout_def)
qed

section \<open>Properties of the byte-order conversions\<close>

lemma bswap32_bits:
  "bit (bswap32 w) n \<longleftrightarrow>
     n < 32 \<and> bit w (if n < 8 then n + 24 else if n < 16 then n + 8
                      else if n < 24 then n - 8 else n - 24)"
  by (auto simp: bswap32_def uint32_bytes_def bit_simps add.commute)

lemma bswap32_involution: "bswap32 (bswap32 w) = w"
  by (rule bit_word_eqI) (auto simp: bswap32_bits)

lemma ntohl_htonl: "ntohl e (htonl e w) = w"
  by (cases e) (simp_all add: ntohl_def htonl_def bswap32_involution)

lemma htonl_ntohl: "htonl e (ntohl e w) = w"
  by (cases e) (simp_all add: ntohl_def htonl_def bswap32_involution)

lemma SessionParams_round_trip: "SessionParamsNToH e (SessionParamsHToN e p) = p"
  by (simp add: SessionParamsNToH_def SessionParamsHToN_def ntohl_htonl)

lemma SessionParams_round_trip_back: "SessionParamsHToN e (SessionParamsNToH e p) = p"
  by (simp add: SessionParamsNToH_def SessionParamsHToN_def htonl_ntohl)

lemma PacketHeader_round_trip: "PacketHeaderNToH e (PacketHeaderHToN e h) = h"
  by (simp add: PacketHeaderNToH_def PacketHeaderHToN_def ntohl_htonl)

lemma PacketHeader_round_trip_back: "PacketHeaderHToN e (PacketHeaderNToH e h) = h"
  by (simp add: PacketHeaderNToH_def PacketHeaderHToN_def htonl_ntohl)

text \<open>
  Claim C4, on the conversions modelled from the specification. Decoding the network-order
  encoding of any session parameters gives them back, every field included, and so for any
  packet header; the other composition is the identity too. Each conversion is a function
  of its argument alone, and it leaves the character fields as they are. On a
  little-endian host the MTU 1500 is encoded as the word \<open>0xDC050000\<close>.
\<close>

theorem wire_header_round_trip:
  "SessionParamsNToH e (SessionParamsHToN e p) = p
   \<and> PacketHeaderNToH e (PacketHeaderHToN e h) = h
   \<and> SessionParamsHToN e (SessionParamsNToH e p) = p
   \<and> PacketHeaderHToN e (PacketHeaderNToH e h) = h
   \<and> session_params.fPacketType (SessionParamsHToN e p) = session_params.fPacketType p
   \<and> fProtocolVersion (SessionParamsHToN e p) = fProtocolVersion p
   \<and> fName (SessionParamsHToN e p) = fName p
   \<and> fMasterNetName (SessionParamsHToN e p) = fMasterNetName p
   \<and> fSlaveNetName (SessionParamsHToN e p) = fSlaveNetName p
   \<and> packet_header.fPacketType (PacketHeaderHToN e h) = packet_header.fPacketType h
   \<and> fDataType (PacketHeaderHToN e h) = fDataType h
   \<and> fDataStream (PacketHeaderHToN e h) = fDataStream h
   \<and> fMtu (SessionParamsHToN LittleEndian (example_params 1500 2 2 1024)) = 0xDC050000
   \<and> fMtu (SessionParamsHToN BigEndian (example_params 1500 2 2 1024)) = 1500"
proof (intro conjI)
  show "SessionParamsNToH e (SessionParamsHToN e p) = p" by (rule SessionParams_round_trip)
  show "PacketHeaderNToH e (PacketHeaderHToN e h) = h" by (rule PacketHeader_round_trip)
  show "SessionParamsHToN e (SessionParamsNToH e p) = p" by (rule SessionParams_round_trip_back)
  show "PacketHeaderHToN e (PacketHeaderNToH e h) = h" by (rule PacketHeader_round_trip_back)
  show "fMtu (SessionParamsHToN LittleEndian (example_params 1500 2 2 1024)) = 0xDC050000"
    by (simp add: SessionParamsHToN_def example_params_def htonl_def bswap32_def uint32_bytes_def)
  show "fMtu (SessionParamsHToN BigEndian (example_params 1500 2 2 1024)) = 1500"
    by (simp add: SessionParamsHToN_def example_params_def htonl_def)
qed (simp_all add: SessionParamsHToN_def PacketHeaderHToN_def)

end
